theory Spec2Isabelle
  imports
    Main
    "HOL-Library.Word"
    "HOL-Library.Char_ord"
    "HOL-Library.List_Lexorder"
begin

section \<open>Go values: panics, indexing, splitting, printing\<close>

text \<open>
  An index expression \<open>a[i]\<close> outside the slice's length is a run-time panic in Go
  (\<open>index out of range [i] with length n\<close>). A panic is not an \<open>error\<close> value: it
  unwinds the caller too.
\<close>

datatype go_panic = IndexOutOfRange nat nat

datatype 'a outcome = Returns 'a | Panics go_panic

definition index :: "'a list \<Rightarrow> nat \<Rightarrow> 'a outcome" where
  "index xs i = (if i < length xs then Returns (xs ! i) else Panics (IndexOutOfRange i (length xs)))"

text \<open>
  \<open>strings.Split(s, sep)\<close> for a separator of one byte: the substrings between the
  separators, all of them, so the result is never empty.
\<close>

fun Split :: "string \<Rightarrow> char \<Rightarrow> string list" where
  "Split [] sep = [[]]"
| "Split (c # cs) sep =
     (if c = sep then [] # Split cs sep
      else (case Split cs sep of [] \<Rightarrow> [[c]] | x # xs \<Rightarrow> (c # x) # xs))"

text \<open>The verb \<open>%d\<close> on a natural number, and zero padding to a width.\<close>

definition digit :: "nat \<Rightarrow> char" where
  "digit d = ''0123456789'' ! (d mod 10)"

fun decimal :: "nat \<Rightarrow> string" where
  "decimal n = (if n < 10 then [digit n] else decimal (n div 10) @ [digit n])"

definition pad :: "nat \<Rightarrow> string \<Rightarrow> string" where
  "pad w s = replicate (w - length s) (CHR ''0'') @ s"

text \<open>
  A \<open>time.Time\<close> read in UTC, and \<open>t.UTC().Format("2006-01-02T15:04:05Z")\<close>.
\<close>

record Time =
  t_year :: nat
  t_month :: nat
  t_day :: nat
  t_hour :: nat
  t_minute :: nat
  t_second :: nat

definition Format :: "Time \<Rightarrow> string" where
  "Format t =
     pad 4 (decimal (t_year t)) @ ''-'' @ pad 2 (decimal (t_month t)) @ ''-'' @
     pad 2 (decimal (t_day t)) @ ''T'' @ pad 2 (decimal (t_hour t)) @ '':'' @
     pad 2 (decimal (t_minute t)) @ '':'' @ pad 2 (decimal (t_second t)) @ ''Z''"

section \<open>The scan command: reports and the summary\<close>

text \<open>
  The scanner reports and the summary are declared in \<open>pkg/types\<close>. The records below
  hold the fields the scan command reads and writes, named by their paths
  (\<open>output.Source.Target.RepoDigests\<close> is \<open>Grype_Source_Target_RepoDigests\<close>).
  The counts are Go \<open>int\<close>s; none can exceed the number of matches, which is itself
  an \<open>int\<close>, so they are modelled as unbounded integers.
\<close>

record GrypeMatch =
  Grype_Vulnerability_ID :: string
  Grype_Vulnerability_DataSource :: string
  Grype_Vulnerability_Severity :: string
  Grype_Vulnerability_Fix_Versions :: "string list"
  Grype_Artifact_Name :: string
  Grype_Artifact_Version :: string
  Grype_Artifact_Type :: string

record GrypeScanOutput =
  Grype_Descriptor_Version :: string
  Grype_Descriptor_Db_Checksum :: string
  Grype_Source_Target_RepoDigests :: "string list"
  Grype_Matches :: "GrypeMatch list"

record TrivyVulnerability =
  Trivy_Severity :: string

record TrivyResult =
  Trivy_Vulnerabilities :: "TrivyVulnerability list"

record TrivyScanOutput =
  Trivy_Metadata_RepoDigests :: "string list"
  Trivy_Results :: "TrivyResult list"

record TrivyVersionOutput =
  Trivy_Version :: string
  Trivy_VulnerabilityDB_UpdatedAt :: string

record ImageScanSummary =
  ID :: string
  Image :: string
  Digest :: string
  Scanner :: string
  ScannerVersion :: string
  ScannerDbVersion :: string
  Time :: string
  Created :: string
  LowCveCount :: int
  MedCveCount :: int
  HighCveCount :: int
  CritCveCount :: int
  NegligibleCveCount :: int
  UnknownCveCount :: int
  TotCveCount :: int
  Success :: bool
  RawGrypeJSON :: string

text \<open>The zero value of the summary, as a composite literal leaves the fields it omits.\<close>

definition zero_summary :: ImageScanSummary where
  "zero_summary =
     \<lparr>ID = [], Image = [], Digest = [], Scanner = [], ScannerVersion = [],
      ScannerDbVersion = [], Time = [], Created = [],
      LowCveCount = 0, MedCveCount = 0, HighCveCount = 0, CritCveCount = 0,
      NegligibleCveCount = 0, UnknownCveCount = 0, TotCveCount = 0,
      Success = False, RawGrypeJSON = []\<rparr>"

text \<open>
  What a function has written to standard output is a list of lines, in order; the
  normalizers return it beside the summary.
\<close>

definition unknown_severity_warning :: "string \<Rightarrow> string" where
  "unknown_severity_warning sev = ''WARNING: unknown severity: '' @ sev"

text \<open>The body of the loop of \<open>grypeOutputToSummary\<close>: the switch on the severity.\<close>

definition grype_count :: "GrypeMatch \<Rightarrow> ImageScanSummary \<times> string list \<Rightarrow> ImageScanSummary \<times> string list" where
  "grype_count m st =
     (let summary = fst st; out = snd st; sev = Grype_Vulnerability_Severity m in
      if sev = ''Low'' then (summary\<lparr>LowCveCount := LowCveCount summary + 1\<rparr>, out)
      else if sev = ''Medium'' then (summary\<lparr>MedCveCount := MedCveCount summary + 1\<rparr>, out)
      else if sev = ''High'' then (summary\<lparr>HighCveCount := HighCveCount summary + 1\<rparr>, out)
      else if sev = ''Critical'' then (summary\<lparr>CritCveCount := CritCveCount summary + 1\<rparr>, out)
      else if sev = ''Negligible'' then
        (summary\<lparr>NegligibleCveCount := NegligibleCveCount summary + 1\<rparr>, out)
      else if sev = ''Unknown'' then
        (summary\<lparr>UnknownCveCount := UnknownCveCount summary + 1\<rparr>, out)
      else (summary, out @ [unknown_severity_warning sev]))"

fun grype_matches_loop :: "GrypeMatch list \<Rightarrow> ImageScanSummary \<times> string list \<Rightarrow> ImageScanSummary \<times> string list" where
  "grype_matches_loop [] st = st"
| "grype_matches_loop (m # ms) st = grype_matches_loop ms (grype_count m st)"

definition grypeOutputToSummary :: "string \<Rightarrow> Time \<Rightarrow> GrypeScanOutput \<Rightarrow> (ImageScanSummary \<times> string list) outcome" where
  "grypeOutputToSummary img scanTime output =
     (let summary = zero_summary\<lparr>Image := img, Scanner := ''grype'', Time := Format scanTime\<rparr>;
          summary = summary\<lparr>Success := True\<rparr>;
          summary = summary\<lparr>ScannerVersion := Grype_Descriptor_Version output\<rparr>;
          summary = summary\<lparr>ScannerDbVersion := Grype_Descriptor_Db_Checksum output\<rparr>
      in case index (Grype_Source_Target_RepoDigests output) 0 of
           Panics p \<Rightarrow> Panics p
         | Returns d \<Rightarrow>
             (case index (Split d (CHR ''@'')) 1 of
                Panics p \<Rightarrow> Panics p
              | Returns dg \<Rightarrow>
                  (let summary = summary\<lparr>Digest := dg\<rparr>;
                       summary = summary\<lparr>TotCveCount := int (length (Grype_Matches output))\<rparr>
                   in Returns (grype_matches_loop (Grype_Matches output) (summary, [])))))"

text \<open>
  \<open>trivyOutputToSummary\<close>: the switch, the inner loop over one result's
  vulnerabilities and the outer loop over the results. The running total is a local
  variable, carried beside the summary.
\<close>

definition trivy_count :: "TrivyVulnerability \<Rightarrow> int \<times> ImageScanSummary \<times> string list \<Rightarrow> int \<times> ImageScanSummary \<times> string list" where
  "trivy_count vuln st =
     (let totalCveCount = fst st + 1; summary = fst (snd st); out = snd (snd st);
          sev = Trivy_Severity vuln in
      if sev = ''LOW'' then (totalCveCount, summary\<lparr>LowCveCount := LowCveCount summary + 1\<rparr>, out)
      else if sev = ''MEDIUM'' then
        (totalCveCount, summary\<lparr>MedCveCount := MedCveCount summary + 1\<rparr>, out)
      else if sev = ''HIGH'' then
        (totalCveCount, summary\<lparr>HighCveCount := HighCveCount summary + 1\<rparr>, out)
      else if sev = ''CRITICAL'' then
        (totalCveCount, summary\<lparr>CritCveCount := CritCveCount summary + 1\<rparr>, out)
      else if sev = ''UNKNOWN'' then
        (totalCveCount, summary\<lparr>UnknownCveCount := UnknownCveCount summary + 1\<rparr>, out)
      else (totalCveCount, summary, out @ [unknown_severity_warning sev]))"

fun trivy_vulnerabilities_loop :: "TrivyVulnerability list \<Rightarrow> int \<times> ImageScanSummary \<times> string list \<Rightarrow> int \<times> ImageScanSummary \<times> string list" where
  "trivy_vulnerabilities_loop [] st = st"
| "trivy_vulnerabilities_loop (v # vs) st = trivy_vulnerabilities_loop vs (trivy_count v st)"

fun trivy_results_loop :: "TrivyResult list \<Rightarrow> int \<times> ImageScanSummary \<times> string list \<Rightarrow> int \<times> ImageScanSummary \<times> string list" where
  "trivy_results_loop [] st = st"
| "trivy_results_loop (r # rs) st =
     trivy_results_loop rs (trivy_vulnerabilities_loop (Trivy_Vulnerabilities r) st)"

definition trivyOutputToSummary :: "string \<Rightarrow> Time \<Rightarrow> TrivyScanOutput \<Rightarrow> TrivyVersionOutput \<Rightarrow> (ImageScanSummary \<times> string list) outcome" where
  "trivyOutputToSummary img scanTime output trivyVersion =
     (let summary = zero_summary\<lparr>Image := img, Scanner := ''trivy'', Time := Format scanTime,
                                 NegligibleCveCount := 0\<rparr>;
          summary = summary\<lparr>Success := True\<rparr>;
          summary = summary\<lparr>ScannerVersion := Trivy_Version trivyVersion\<rparr>;
          summary = summary\<lparr>ScannerDbVersion := Trivy_VulnerabilityDB_UpdatedAt trivyVersion\<rparr>
      in case index (Trivy_Metadata_RepoDigests output) 0 of
           Panics p \<Rightarrow> Panics p
         | Returns d \<Rightarrow>
             (case index (Split d (CHR ''@'')) 1 of
                Panics p \<Rightarrow> Panics p
              | Returns dg \<Rightarrow>
                  (let summary = summary\<lparr>Digest := dg\<rparr>;
                       st = trivy_results_loop (Trivy_Results output) (0, summary, []);
                       summary = (fst (snd st))\<lparr>TotCveCount := fst st\<rparr>
                   in Returns (summary, snd (snd st)))))"


section \<open>The library: JSON texts\<close>

text \<open>
  Both commands go through \<open>encoding/json\<close>: \<open>json.Unmarshal\<close> checks that the
  bytes are one JSON value and then decodes it into a Go value, \<open>json.Compact\<close>
  checks the same and copies the bytes without the insignificant white space. The
  model has the grammar of JSON texts, the value a text stands for, and the rules
  \<open>Unmarshal\<close> follows into the structs of this repository. Two things the library
  does are left out: bytes of a string that are not UTF-8 are kept as they are (the
  library replaces them by U+FFFD), and a slice is decoded into fresh elements, as
  the library's documentation has it.
\<close>

datatype json =
    JNull
  | JBool bool
  | JNumber string
  | JString string
  | JArray "json list"
  | JObject "(string \<times> json) list"

definition isSpace :: "char \<Rightarrow> bool" where
  "isSpace c = (c = CHR '' '' \<or> c = CHR 0x09 \<or> c = CHR 0x0D \<or> c = CHR 0x0A)"

datatype token =
    LBrace | RBrace | LBracket | RBracket | Colon | Comma
  | TokString string
  | TokLiteral string

definition punctuation :: "char \<Rightarrow> token option" where
  "punctuation c =
     (if c = CHR ''{'' then Some LBrace else if c = CHR ''}'' then Some RBrace
      else if c = CHR ''['' then Some LBracket else if c = CHR '']'' then Some RBracket
      else if c = CHR '':'' then Some Colon else if c = CHR '','' then Some Comma
      else None)"

text \<open>
  The scanner, one byte at a time: between tokens, inside a string (after its opening
  quote, with the bytes read so far), after a backslash inside a string, inside a
  literal (a number, \<open>true\<close>, \<open>false\<close> or \<open>null\<close>), and after a literal that white
  space has ended, where only punctuation may follow. A string token holds the bytes
  between the quotes, escapes not yet decoded.
\<close>

datatype token_state =
    BeginToken
  | InString string
  | InStringEsc string
  | InLiteral string
  | EndLiteral string

fun tokenize :: "token_state \<Rightarrow> string \<Rightarrow> token list option" where
  "tokenize BeginToken [] = Some []"
| "tokenize (InString s) [] = None"
| "tokenize (InStringEsc s) [] = None"
| "tokenize (InLiteral l) [] = Some [TokLiteral l]"
| "tokenize (EndLiteral l) [] = Some [TokLiteral l]"
| "tokenize BeginToken (c # cs) =
     (if isSpace c then tokenize BeginToken cs
      else if c = CHR 0x22 then tokenize (InString []) cs
      else (case punctuation c of
              Some t \<Rightarrow> map_option (\<lambda>ts. t # ts) (tokenize BeginToken cs)
            | None \<Rightarrow> tokenize (InLiteral [c]) cs))"
| "tokenize (InString s) (c # cs) =
     (if c = CHR 0x22 then map_option (\<lambda>ts. TokString s # ts) (tokenize BeginToken cs)
      else if c = CHR 0x5C then tokenize (InStringEsc (s @ [c])) cs
      else tokenize (InString (s @ [c])) cs)"
| "tokenize (InStringEsc s) (c # cs) = tokenize (InString (s @ [c])) cs"
| "tokenize (InLiteral l) (c # cs) =
     (if isSpace c then tokenize (EndLiteral l) cs
      else if c = CHR 0x22 then None
      else (case punctuation c of
              Some t \<Rightarrow> map_option (\<lambda>ts. TokLiteral l # t # ts) (tokenize BeginToken cs)
            | None \<Rightarrow> tokenize (InLiteral (l @ [c])) cs))"
| "tokenize (EndLiteral l) (c # cs) =
     (if isSpace c then tokenize (EndLiteral l) cs
      else (case punctuation c of
              Some t \<Rightarrow> map_option (\<lambda>ts. TokLiteral l # t # ts) (tokenize BeginToken cs)
            | None \<Rightarrow> None))"

text \<open>
  What \<open>json.Compact\<close> copies: every byte but the white space outside strings.
\<close>

datatype compact_state = Outside | Inside | InsideEsc

fun compact :: "compact_state \<Rightarrow> string \<Rightarrow> string" where
  "compact st [] = []"
| "compact Outside (c # cs) =
     (if isSpace c then compact Outside cs
      else if c = CHR 0x22 then c # compact Inside cs
      else c # compact Outside cs)"
| "compact Inside (c # cs) =
     (if c = CHR 0x22 then c # compact Outside cs
      else if c = CHR 0x5C then c # compact InsideEsc cs
      else c # compact Inside cs)"
| "compact InsideEsc (c # cs) = c # compact Inside cs"

subsection \<open>Literals and strings\<close>

definition isDigit :: "char \<Rightarrow> bool" where
  "isDigit c = (CHR ''0'' \<le> c \<and> c \<le> CHR ''9'')"

definition valid_exponent :: "string \<Rightarrow> bool" where
  "valid_exponent r =
     (case r of
        [] \<Rightarrow> True
      | e # r1 \<Rightarrow>
          (e = CHR ''e'' \<or> e = CHR ''E'') \<and>
          (let r2 = (case r1 of [] \<Rightarrow> [] | sg # r3 \<Rightarrow> if sg = CHR ''+'' \<or> sg = CHR ''-'' then r3 else r1)
           in r2 \<noteq> [] \<and> list_all isDigit r2))"

definition valid_fraction :: "string \<Rightarrow> bool" where
  "valid_fraction r =
     (case r of
        [] \<Rightarrow> True
      | d # r1 \<Rightarrow>
          if d = CHR ''.'' then takeWhile isDigit r1 \<noteq> [] \<and> valid_exponent (dropWhile isDigit r1)
          else valid_exponent r)"

definition valid_number :: "string \<Rightarrow> bool" where
  "valid_number l =
     (let l1 = (case l of [] \<Rightarrow> [] | sg # r \<Rightarrow> if sg = CHR ''-'' then r else l)
      in case l1 of
           [] \<Rightarrow> False
         | d # r \<Rightarrow>
             if d = CHR ''0'' then valid_fraction r
             else isDigit d \<and> valid_fraction (dropWhile isDigit r))"

definition literal :: "string \<Rightarrow> json option" where
  "literal l =
     (if l = ''null'' then Some JNull
      else if l = ''true'' then Some (JBool True)
      else if l = ''false'' then Some (JBool False)
      else if valid_number l then Some (JNumber l)
      else None)"


text \<open>
  The bytes a string literal stands for: the escapes decoded, \<open>\uXXXX\<close> written in
  UTF-8 (a surrogate pair as one code point, a lone surrogate as U+FFFD). A control
  character or an escape the grammar does not have makes the text invalid.
\<close>

definition hex_digit :: "char \<Rightarrow> nat option" where
  "hex_digit c =
     (if isDigit c then Some (of_char c - 48)
      else if CHR ''a'' \<le> c \<and> c \<le> CHR ''f'' then Some (of_char c - 87)
      else if CHR ''A'' \<le> c \<and> c \<le> CHR ''F'' then Some (of_char c - 55)
      else None)"

definition hex4 :: "string \<Rightarrow> nat option" where
  "hex4 s =
     (case map hex_digit (take 4 s) of
        [Some a, Some b, Some c, Some d] \<Rightarrow> Some (((a * 16 + b) * 16 + c) * 16 + d)
      | _ \<Rightarrow> None)"

definition getu4 :: "string \<Rightarrow> nat option" where
  "getu4 s =
     (case s of
        b # u # r \<Rightarrow> if b = CHR 0x5C \<and> u = CHR ''u'' then hex4 r else None
      | _ \<Rightarrow> None)"

definition EncodeRune :: "nat \<Rightarrow> string" where
  "EncodeRune r =
     (if r < 0x80 then [char_of r]
      else if r < 0x800 then [char_of (0xC0 + r div 64), char_of (0x80 + r mod 64)]
      else if 0xD800 \<le> r \<and> r < 0xE000 \<or> 0x10FFFF < r then [CHR 0xEF, CHR 0xBF, CHR 0xBD]
      else if r < 0x10000 then
        [char_of (0xE0 + r div 4096), char_of (0x80 + (r div 64) mod 64), char_of (0x80 + r mod 64)]
      else
        [char_of (0xF0 + r div 262144), char_of (0x80 + (r div 4096) mod 64),
         char_of (0x80 + (r div 64) mod 64), char_of (0x80 + r mod 64)])"

definition IsSurrogate :: "nat \<Rightarrow> bool" where
  "IsSurrogate r = (0xD800 \<le> r \<and> r < 0xE000)"

definition DecodeRune :: "nat \<Rightarrow> nat option \<Rightarrow> nat option" where
  "DecodeRune r1 r2 =
     (case r2 of
        None \<Rightarrow> None
      | Some r2 \<Rightarrow>
          if 0xD800 \<le> r1 \<and> r1 < 0xDC00 \<and> 0xDC00 \<le> r2 \<and> r2 < 0xE000
          then Some ((r1 - 0xD800) * 1024 + (r2 - 0xDC00) + 0x10000)
          else None)"

definition simple_escape :: "char \<Rightarrow> char option" where
  "simple_escape e =
     (if e = CHR 0x22 \<or> e = CHR 0x5C \<or> e = CHR ''/'' then Some e
      else if e = CHR ''b'' then Some (CHR 0x08)
      else if e = CHR ''f'' then Some (CHR 0x0C)
      else if e = CHR ''n'' then Some (CHR 0x0A)
      else if e = CHR ''r'' then Some (CHR 0x0D)
      else if e = CHR ''t'' then Some (CHR 0x09)
      else None)"

fun unquote :: "string \<Rightarrow> string option" where
  "unquote [] = Some []"
| "unquote (c # cs) =
     (if c = CHR 0x5C then
        (case cs of
           [] \<Rightarrow> None
         | e # r \<Rightarrow>
             if e = CHR ''u'' then
               (case hex4 r of
                  None \<Rightarrow> None
                | Some rr \<Rightarrow>
                    if IsSurrogate rr then
                      (case DecodeRune rr (getu4 (drop 4 r)) of
                         Some dec \<Rightarrow> map_option (\<lambda>t. EncodeRune dec @ t) (unquote (drop 10 r))
                       | None \<Rightarrow> map_option (\<lambda>t. EncodeRune 0xFFFD @ t) (unquote (drop 4 r)))
                    else map_option (\<lambda>t. EncodeRune rr @ t) (unquote (drop 4 r)))
             else
               (case simple_escape e of
                  None \<Rightarrow> None
                | Some x \<Rightarrow> map_option (\<lambda>t. x # t) (unquote r)))
      else if (of_char c :: nat) < 0x20 then None
      else map_option (\<lambda>t. c # t) (unquote cs))"

subsection \<open>The value of a text\<close>

text \<open>
  The tokens are read with a stack of the arrays and objects that are open, as the
  library's scanner keeps one. A frame holds what its array or object has collected,
  latest first, and an object's frame the key whose value is being read.
\<close>

datatype frame =
    ArrayFrame "json list"
  | ObjectFrame "(string \<times> json) list" string

datatype parse_state =
    BeginValue
  | BeginValueOrEmpty
  | BeginStringOrEmpty
  | BeginString
  | EndKey
  | EndValue
  | EndTop json

definition end_value :: "json \<Rightarrow> frame list \<Rightarrow> frame list \<times> parse_state" where
  "end_value v stack =
     (case stack of
        [] \<Rightarrow> ([], EndTop v)
      | ArrayFrame vs # st \<Rightarrow> (ArrayFrame (v # vs) # st, EndValue)
      | ObjectFrame ms k # st \<Rightarrow> (ObjectFrame ((k, v) # ms) k # st, EndValue))"

definition begin_value :: "token \<Rightarrow> frame list \<Rightarrow> (frame list \<times> parse_state) option" where
  "begin_value t stack =
     (case t of
        LBracket \<Rightarrow> Some (ArrayFrame [] # stack, BeginValueOrEmpty)
      | LBrace \<Rightarrow> Some (ObjectFrame [] [] # stack, BeginStringOrEmpty)
      | TokString raw \<Rightarrow> map_option (\<lambda>s. end_value (JString s) stack) (unquote raw)
      | TokLiteral l \<Rightarrow> map_option (\<lambda>v. end_value v stack) (literal l)
      | _ \<Rightarrow> None)"

definition begin_key :: "token \<Rightarrow> frame list \<Rightarrow> (frame list \<times> parse_state) option" where
  "begin_key t stack =
     (case (t, stack) of
        (TokString raw, ObjectFrame ms k # st) \<Rightarrow>
          map_option (\<lambda>s. (ObjectFrame ms s # st, EndKey)) (unquote raw)
      | _ \<Rightarrow> None)"

definition parse_step :: "token \<Rightarrow> frame list \<times> parse_state \<Rightarrow> (frame list \<times> parse_state) option" where
  "parse_step t st =
     (let stack = fst st in
      case snd st of
        BeginValue \<Rightarrow> begin_value t stack
      | BeginValueOrEmpty \<Rightarrow>
          (case (t, stack) of
             (RBracket, ArrayFrame vs # rest) \<Rightarrow> Some (end_value (JArray (rev vs)) rest)
           | _ \<Rightarrow> begin_value t stack)
      | BeginStringOrEmpty \<Rightarrow>
          (case (t, stack) of
             (RBrace, ObjectFrame ms k # rest) \<Rightarrow> Some (end_value (JObject (rev ms)) rest)
           | _ \<Rightarrow> begin_key t stack)
      | BeginString \<Rightarrow> begin_key t stack
      | EndKey \<Rightarrow> (case t of Colon \<Rightarrow> Some (stack, BeginValue) | _ \<Rightarrow> None)
      | EndValue \<Rightarrow>
          (case (t, stack) of
             (Comma, ArrayFrame vs # rest) \<Rightarrow> Some (stack, BeginValue)
           | (RBracket, ArrayFrame vs # rest) \<Rightarrow> Some (end_value (JArray (rev vs)) rest)
           | (Comma, ObjectFrame ms k # rest) \<Rightarrow> Some (stack, BeginString)
           | (RBrace, ObjectFrame ms k # rest) \<Rightarrow> Some (end_value (JObject (rev ms)) rest)
           | _ \<Rightarrow> None)
      | EndTop v \<Rightarrow> None)"

fun parse_tokens :: "token list \<Rightarrow> frame list \<times> parse_state \<Rightarrow> json option" where
  "parse_tokens [] st = (case st of ([], EndTop v) \<Rightarrow> Some v | _ \<Rightarrow> None)"
| "parse_tokens (t # ts) st =
     (case parse_step t st of None \<Rightarrow> None | Some st' \<Rightarrow> parse_tokens ts st')"

definition json_value :: "string \<Rightarrow> json option" where
  "json_value text =
     (case tokenize BeginToken text of
        None \<Rightarrow> None
      | Some ts \<Rightarrow> parse_tokens ts ([], BeginValue))"

text \<open>
  \<open>json.Compact(dst, src)\<close>: an error when \<open>src\<close> is not a JSON text, the text
  without its insignificant white space otherwise.
\<close>

datatype json_error = SyntaxError | UnmarshalTypeError

definition Compact :: "string \<Rightarrow> json_error + string" where
  "Compact src = (case json_value src of None \<Rightarrow> Inl SyntaxError | Some v \<Rightarrow> Inr (compact Outside src))"


section \<open>The library: decoding into structs\<close>

text \<open>
  \<open>Unmarshal\<close> decodes into the value that is there: a member of an object whose key
  matches a field is decoded into that field, a member that matches none is skipped,
  \<open>null\<close> leaves a string, a number or a struct as it was and sets a pointer or a
  slice to nil, and a value of the wrong kind is an error. A key matches a field when
  the two names are equal after folding: the letters of ASCII to upper case, and the
  two runes that fold to ASCII letters (U+017F to S, U+212A to K). No struct of this
  repository has two fields whose names fold alike, so the library's preference for
  an exact match decides nothing here.
\<close>

definition to_upper :: "char \<Rightarrow> char" where
  "to_upper c = (if CHR ''a'' \<le> c \<and> c \<le> CHR ''z'' then char_of ((of_char c :: nat) - 32) else c)"

fun foldName :: "string \<Rightarrow> string" where
  "foldName [] = []"
| "foldName (c # cs) =
     (if c = CHR 0xC5 \<and> take 1 cs = [CHR 0xBF] then CHR ''S'' # foldName (drop 1 cs)
      else if c = CHR 0xE2 \<and> take 2 cs = [CHR 0x84, CHR 0xAA] then CHR ''K'' # foldName (drop 2 cs)
      else to_upper c # foldName cs)"

definition matches_field :: "string \<Rightarrow> string \<Rightarrow> bool" where
  "matches_field key name = (foldName key = foldName name)"

fun decode_members :: "(string \<Rightarrow> json \<Rightarrow> 'a \<Rightarrow> 'a option) \<Rightarrow> (string \<times> json) list \<Rightarrow> 'a \<Rightarrow> 'a option" where
  "decode_members field [] x = Some x"
| "decode_members field (m # ms) x =
     (case field (fst m) (snd m) x of
        None \<Rightarrow> None
      | Some x' \<Rightarrow> decode_members field ms x')"

definition decode_struct :: "(string \<Rightarrow> json \<Rightarrow> 'a \<Rightarrow> 'a option) \<Rightarrow> json \<Rightarrow> 'a \<Rightarrow> 'a option" where
  "decode_struct field j x =
     (case j of JObject ms \<Rightarrow> decode_members field ms x | JNull \<Rightarrow> Some x | _ \<Rightarrow> None)"

definition decode_string :: "json \<Rightarrow> string \<Rightarrow> string option" where
  "decode_string j old = (case j of JString s \<Rightarrow> Some s | JNull \<Rightarrow> Some old | _ \<Rightarrow> None)"

text \<open>
  A Go \<open>int\<close> has 64 bits. A number decodes into one when \<open>strconv.ParseInt\<close> reads
  its literal: digits after an optional sign, within the range.
\<close>

type_synonym int64 = "64 word"

definition digits_value :: "string \<Rightarrow> nat" where
  "digits_value ds = foldl (\<lambda>a c. a * 10 + ((of_char c :: nat) - 48)) 0 ds"

definition ParseInt :: "string \<Rightarrow> int64 option" where
  "ParseInt l =
     (let neg = (case l of [] \<Rightarrow> False | c # r \<Rightarrow> c = CHR ''-'');
          ds = (if neg then tl l else l)
      in if ds \<noteq> [] \<and> list_all isDigit ds then
           (let v = (if neg then - int (digits_value ds) else int (digits_value ds))
            in if - (2 ^ 63) \<le> v \<and> v < 2 ^ 63 then Some (word_of_int v) else None)
         else None)"

definition decode_int :: "json \<Rightarrow> int64 \<Rightarrow> int64 option" where
  "decode_int j old = (case j of JNumber l \<Rightarrow> ParseInt l | JNull \<Rightarrow> Some old | _ \<Rightarrow> None)"

fun decode_elements :: "(json \<Rightarrow> 'a option) \<Rightarrow> json list \<Rightarrow> 'a list option" where
  "decode_elements elem [] = Some []"
| "decode_elements elem (v # vs) =
     (case elem v of
        None \<Rightarrow> None
      | Some x \<Rightarrow> map_option (\<lambda>xs. x # xs) (decode_elements elem vs))"

definition decode_slice :: "(json \<Rightarrow> 'a option) \<Rightarrow> json \<Rightarrow> 'a list option" where
  "decode_slice elem j =
     (case j of JArray vs \<Rightarrow> decode_elements elem vs | JNull \<Rightarrow> Some [] | _ \<Rightarrow> None)"

definition decode_pointer :: "(json \<Rightarrow> 'a \<Rightarrow> 'a option) \<Rightarrow> 'a \<Rightarrow> json \<Rightarrow> 'a option \<Rightarrow> 'a option option" where
  "decode_pointer dec zero j old =
     (case j of
        JNull \<Rightarrow> Some None
      | _ \<Rightarrow> map_option Some (dec j (case old of None \<Rightarrow> zero | Some x \<Rightarrow> x)))"

section \<open>The query command: the row and its structs\<close>

text \<open>
  The structs of \<open>cmd/testquery\<close>. A pointer is an option, a slice a list. The JSON
  name of a field is its tag, or its own name when it has none: \<open>matches\<close>,
  \<open>vulnerability\<close>, \<open>id\<close> and \<open>dataSource\<close> are tags.
\<close>

record Locations =
  Locations_Path :: string
  Locations_LayerID :: string

record Nack =
  Nack_Url :: "string option"
  Nack_Cve :: string
  Nack_Reason :: string

record Artifact =
  Artifact_Name :: string
  Artifact_Version :: string
  Artifact_Type :: string
  Artifact_Locations :: "Locations list option"

record Vulnerability =
  Vulnerability_CveId :: string
  Vulnerability_Datasource :: string
  Vulnerability_Severity :: string

record Match =
  Match_Vuln :: Vulnerability
  Match_Nack :: "Nack option"
  Match_Artifact :: Artifact

record ImageCveScan =
  Scan_GithubIssueId :: int64
  Scan_Image :: string
  Scan_Digest :: string
  Scan_Time :: string
  Scan_Created :: string
  Scan_Low :: int64
  Scan_Med :: int64
  Scan_High :: int64
  Scan_Crit :: int64
  Scan_Negligible :: int64
  Scan_MatchesString :: string
  Scan_Matches :: "Match option list"

definition zero_Locations :: Locations where
  "zero_Locations = \<lparr>Locations_Path = [], Locations_LayerID = []\<rparr>"

definition zero_Nack :: Nack where
  "zero_Nack = \<lparr>Nack_Url = None, Nack_Cve = [], Nack_Reason = []\<rparr>"

definition zero_Artifact :: Artifact where
  "zero_Artifact =
     \<lparr>Artifact_Name = [], Artifact_Version = [], Artifact_Type = [], Artifact_Locations = None\<rparr>"

definition zero_Vulnerability :: Vulnerability where
  "zero_Vulnerability =
     \<lparr>Vulnerability_CveId = [], Vulnerability_Datasource = [], Vulnerability_Severity = []\<rparr>"

definition zero_Match :: Match where
  "zero_Match = \<lparr>Match_Vuln = zero_Vulnerability, Match_Nack = None, Match_Artifact = zero_Artifact\<rparr>"

definition zero_ImageCveScan :: ImageCveScan where
  "zero_ImageCveScan =
     \<lparr>Scan_GithubIssueId = 0, Scan_Image = [], Scan_Digest = [], Scan_Time = [], Scan_Created = [],
      Scan_Low = 0, Scan_Med = 0, Scan_High = 0, Scan_Crit = 0, Scan_Negligible = 0,
      Scan_MatchesString = [], Scan_Matches = []\<rparr>"

definition Locations_field :: "string \<Rightarrow> json \<Rightarrow> Locations \<Rightarrow> Locations option" where
  "Locations_field key v l =
     (if matches_field key ''Path'' then
        map_option (\<lambda>s. l\<lparr>Locations_Path := s\<rparr>) (decode_string v (Locations_Path l))
      else if matches_field key ''LayerID'' then
        map_option (\<lambda>s. l\<lparr>Locations_LayerID := s\<rparr>) (decode_string v (Locations_LayerID l))
      else Some l)"

definition Nack_field :: "string \<Rightarrow> json \<Rightarrow> Nack \<Rightarrow> Nack option" where
  "Nack_field key v n =
     (if matches_field key ''Url'' then
        map_option (\<lambda>u. n\<lparr>Nack_Url := u\<rparr>)
          (decode_pointer decode_string [] v (Nack_Url n))
      else if matches_field key ''Cve'' then
        map_option (\<lambda>s. n\<lparr>Nack_Cve := s\<rparr>) (decode_string v (Nack_Cve n))
      else if matches_field key ''Reason'' then
        map_option (\<lambda>s. n\<lparr>Nack_Reason := s\<rparr>) (decode_string v (Nack_Reason n))
      else Some n)"

definition Artifact_field :: "string \<Rightarrow> json \<Rightarrow> Artifact \<Rightarrow> Artifact option" where
  "Artifact_field key v a =
     (if matches_field key ''Name'' then
        map_option (\<lambda>s. a\<lparr>Artifact_Name := s\<rparr>) (decode_string v (Artifact_Name a))
      else if matches_field key ''Version'' then
        map_option (\<lambda>s. a\<lparr>Artifact_Version := s\<rparr>) (decode_string v (Artifact_Version a))
      else if matches_field key ''Type'' then
        map_option (\<lambda>s. a\<lparr>Artifact_Type := s\<rparr>) (decode_string v (Artifact_Type a))
      else if matches_field key ''Locations'' then
        map_option (\<lambda>ls. a\<lparr>Artifact_Locations := ls\<rparr>)
          (decode_pointer
             (\<lambda>j old. decode_slice (\<lambda>e. decode_struct Locations_field e zero_Locations) j)
             [] v (Artifact_Locations a))
      else Some a)"

definition Vulnerability_field :: "string \<Rightarrow> json \<Rightarrow> Vulnerability \<Rightarrow> Vulnerability option" where
  "Vulnerability_field key v vuln =
     (if matches_field key ''id'' then
        map_option (\<lambda>s. vuln\<lparr>Vulnerability_CveId := s\<rparr>) (decode_string v (Vulnerability_CveId vuln))
      else if matches_field key ''dataSource'' then
        map_option (\<lambda>s. vuln\<lparr>Vulnerability_Datasource := s\<rparr>)
          (decode_string v (Vulnerability_Datasource vuln))
      else if matches_field key ''Severity'' then
        map_option (\<lambda>s. vuln\<lparr>Vulnerability_Severity := s\<rparr>)
          (decode_string v (Vulnerability_Severity vuln))
      else Some vuln)"

definition Match_field :: "string \<Rightarrow> json \<Rightarrow> Match \<Rightarrow> Match option" where
  "Match_field key v m =
     (if matches_field key ''vulnerability'' then
        map_option (\<lambda>x. m\<lparr>Match_Vuln := x\<rparr>) (decode_struct Vulnerability_field v (Match_Vuln m))
      else if matches_field key ''Nack'' then
        map_option (\<lambda>x. m\<lparr>Match_Nack := x\<rparr>)
          (decode_pointer (decode_struct Nack_field) zero_Nack v (Match_Nack m))
      else if matches_field key ''Artifact'' then
        map_option (\<lambda>x. m\<lparr>Match_Artifact := x\<rparr>) (decode_struct Artifact_field v (Match_Artifact m))
      else Some m)"

definition ImageCveScan_field :: "string \<Rightarrow> json \<Rightarrow> ImageCveScan \<Rightarrow> ImageCveScan option" where
  "ImageCveScan_field key v scan =
     (if matches_field key ''GithubIssueId'' then
        map_option (\<lambda>n. scan\<lparr>Scan_GithubIssueId := n\<rparr>) (decode_int v (Scan_GithubIssueId scan))
      else if matches_field key ''Image'' then
        map_option (\<lambda>s. scan\<lparr>Scan_Image := s\<rparr>) (decode_string v (Scan_Image scan))
      else if matches_field key ''Digest'' then
        map_option (\<lambda>s. scan\<lparr>Scan_Digest := s\<rparr>) (decode_string v (Scan_Digest scan))
      else if matches_field key ''Time'' then
        map_option (\<lambda>s. scan\<lparr>Scan_Time := s\<rparr>) (decode_string v (Scan_Time scan))
      else if matches_field key ''Created'' then
        map_option (\<lambda>s. scan\<lparr>Scan_Created := s\<rparr>) (decode_string v (Scan_Created scan))
      else if matches_field key ''Low'' then
        map_option (\<lambda>n. scan\<lparr>Scan_Low := n\<rparr>) (decode_int v (Scan_Low scan))
      else if matches_field key ''Med'' then
        map_option (\<lambda>n. scan\<lparr>Scan_Med := n\<rparr>) (decode_int v (Scan_Med scan))
      else if matches_field key ''High'' then
        map_option (\<lambda>n. scan\<lparr>Scan_High := n\<rparr>) (decode_int v (Scan_High scan))
      else if matches_field key ''Crit'' then
        map_option (\<lambda>n. scan\<lparr>Scan_Crit := n\<rparr>) (decode_int v (Scan_Crit scan))
      else if matches_field key ''Negligible'' then
        map_option (\<lambda>n. scan\<lparr>Scan_Negligible := n\<rparr>) (decode_int v (Scan_Negligible scan))
      else if matches_field key ''MatchesString'' then
        map_option (\<lambda>s. scan\<lparr>Scan_MatchesString := s\<rparr>) (decode_string v (Scan_MatchesString scan))
      else if matches_field key ''matches'' then
        map_option (\<lambda>ms. scan\<lparr>Scan_Matches := ms\<rparr>)
          (decode_slice (\<lambda>e. decode_pointer (decode_struct Match_field) zero_Match e None) v)
      else Some scan)"

text \<open>\<open>json.Unmarshal([]byte(data), &is)\<close> for the row \<open>is\<close>.\<close>

definition Unmarshal_ImageCveScan :: "string \<Rightarrow> ImageCveScan \<Rightarrow> json_error + ImageCveScan" where
  "Unmarshal_ImageCveScan data scan =
     (case json_value data of
        None \<Rightarrow> Inl SyntaxError
      | Some j \<Rightarrow>
          (case decode_struct ImageCveScan_field j scan of
             None \<Rightarrow> Inl UnmarshalTypeError
           | Some scan' \<Rightarrow> Inr scan'))"


section \<open>The query command: selecting, reading and reporting\<close>

text \<open>
  A row of the table, with the columns the query and the struct's loader read. The
  table's schema has no column for \<open>Matches\<close>, so a loaded row has none.
\<close>

record Row =
  col_GithubIssueId :: int64
  col_image :: string
  col_digest :: string
  col_time :: string
  col_created :: string
  col_scanner :: string
  col_low_cve_count :: int64
  col_med_cve_count :: int64
  col_high_cve_count :: int64
  col_crit_cve_count :: int64
  col_negligible_cve_count :: int64
  col_raw_grype_json :: string

definition load :: "Row \<Rightarrow> ImageCveScan" where
  "load r =
     \<lparr>Scan_GithubIssueId = col_GithubIssueId r, Scan_Image = col_image r,
      Scan_Digest = col_digest r, Scan_Time = col_time r, Scan_Created = col_created r,
      Scan_Low = col_low_cve_count r, Scan_Med = col_med_cve_count r,
      Scan_High = col_high_cve_count r, Scan_Crit = col_crit_cve_count r,
      Scan_Negligible = col_negligible_cve_count r,
      Scan_MatchesString = col_raw_grype_json r, Scan_Matches = []\<rparr>"

text \<open>
  The query of \<open>main\<close>, clause by clause:
  \<^verbatim>\<open>SELECT * FROM (SELECT *, ROW_NUMBER() OVER (PARTITION BY image ORDER BY time DESC) rn
  FROM table WHERE scanner = "grype") t WHERE rn = 1 ORDER BY image\<close>.
  A table has no order of its own; the list is the order in which the store happens
  to hold the rows, and that order is what decides between rows of one image with
  the same time.
\<close>

definition where_scanner_grype :: "Row list \<Rightarrow> Row list" where
  "where_scanner_grype table = filter (\<lambda>r. col_scanner r = ''grype'') table"

definition partition_by_image :: "Row list \<Rightarrow> Row list list" where
  "partition_by_image rows =
     map (\<lambda>i. filter (\<lambda>r. col_image r = i) rows) (remdups (map col_image rows))"

definition order_by_time_desc :: "Row list \<Rightarrow> Row list" where
  "order_by_time_desc rows = rev (sort_key col_time rows)"

definition row_number :: "Row list \<Rightarrow> (nat \<times> Row) list" where
  "row_number rows = enumerate 1 rows"

definition latest_scan_query :: "Row list \<Rightarrow> Row list" where
  "latest_scan_query table =
     (let t = concat (map (\<lambda>p. row_number (order_by_time_desc p))
                (partition_by_image (where_scanner_grype table)))
      in sort_key col_image (map snd (filter (\<lambda>x. fst x = 1) t)))"

text \<open>
  \<open>it.Next(&is)\<close> loads the next row into a fresh \<open>is\<close>, or returns an error with
  \<open>is\<close> as far as the loader got; past the last row it returns \<open>iterator.Done\<close> and
  leaves \<open>is\<close> untouched. \<open>log.Fatal\<close> ends the process.
\<close>

datatype next_result = NextRow Row | NextError string ImageCveScan

datatype fatal =
    FailedCreatingClient string
  | FailedRead string
  | FailedUnmarshal json_error
  | FailedNext string

fun read_rows :: "next_result list \<Rightarrow> ImageCveScan list \<Rightarrow> fatal + ImageCveScan list" where
  "read_rows [] imageScans = Inr imageScans"
| "read_rows (n # it) imageScans =
     (let err = (case n of NextRow r \<Rightarrow> None | NextError e row \<Rightarrow> Some e);
          row = (case n of NextRow r \<Rightarrow> load r | NextError e row \<Rightarrow> row)
      in if Scan_MatchesString row \<noteq> [] then
           (case Unmarshal_ImageCveScan (Scan_MatchesString row) row of
              Inl e \<Rightarrow> Inl (FailedUnmarshal e)
            | Inr row' \<Rightarrow> read_rows it (imageScans @ [row']))
         else
           (case err of
              Some e \<Rightarrow> Inl (FailedNext e)
            | None \<Rightarrow> read_rows it (imageScans @ [row])))"

text \<open>The verb \<open>%d\<close> on an \<open>int\<close>.\<close>

definition format_int :: "int64 \<Rightarrow> string" where
  "format_int n = (if sint n < 0 then ''-'' @ decimal (nat (- sint n)) else decimal (nat (sint n)))"

definition report_scan :: "ImageCveScan \<Rightarrow> string list" where
  "report_scan scan =
     (let total = Scan_Crit scan + Scan_High scan + Scan_Med scan + Scan_Low scan + Scan_Negligible scan
      in if 0 <s total then
           [Scan_Image scan,
            '' - Critical: '' @ format_int (Scan_Crit scan),
            '' - High:     '' @ format_int (Scan_High scan),
            '' - Medium:   '' @ format_int (Scan_Med scan),
            '' - Low:      '' @ format_int (Scan_Low scan),
            '' - Neg:      '' @ format_int (Scan_Negligible scan)]
         else [])"

fun report :: "ImageCveScan list \<Rightarrow> string list" where
  "report [] = []"
| "report (scan # imageScans) = report_scan scan @ report imageScans"

text \<open>
  \<open>main\<close>, given what creating the client and reading the query returned: the lines
  it prints, and how it ends.
\<close>

definition query_main :: "string option \<Rightarrow> string + next_result list \<Rightarrow> string list \<times> fatal option" where
  "query_main client_err read =
     (case client_err of
        Some e \<Rightarrow> ([], Some (FailedCreatingClient e))
      | None \<Rightarrow>
          (case read of
             Inl e \<Rightarrow> ([], Some (FailedRead e))
           | Inr it \<Rightarrow>
               (case read_rows it [] of
                  Inl f \<Rightarrow> ([], Some f)
                | Inr imageScans \<Rightarrow> (report imageScans, None))))"


section \<open>The scan command: running a scanner\<close>

text \<open>
  Modelled from the spec: the declarations of \<open>types.GrypeScanOutput\<close>,
  \<open>types.TrivyScanOutput\<close> and \<open>types.TrivyVersionOutput\<close> are in \<open>pkg/types\<close>, which
  decides how \<open>json.Unmarshal\<close> fills them. The decoders below fill the fields the scan
  command reads from the members of the same names, nested as the field paths are;
  an entry of a list of structs is a struct, not a pointer.
\<close>

definition zero_GrypeMatch :: GrypeMatch where
  "zero_GrypeMatch =
     \<lparr>Grype_Vulnerability_ID = [], Grype_Vulnerability_DataSource = [],
      Grype_Vulnerability_Severity = [], Grype_Vulnerability_Fix_Versions = [],
      Grype_Artifact_Name = [], Grype_Artifact_Version = [], Grype_Artifact_Type = []\<rparr>"

definition zero_GrypeScanOutput :: GrypeScanOutput where
  "zero_GrypeScanOutput =
     \<lparr>Grype_Descriptor_Version = [], Grype_Descriptor_Db_Checksum = [],
      Grype_Source_Target_RepoDigests = [], Grype_Matches = []\<rparr>"

definition zero_TrivyScanOutput :: TrivyScanOutput where
  "zero_TrivyScanOutput = \<lparr>Trivy_Metadata_RepoDigests = [], Trivy_Results = []\<rparr>"

definition zero_TrivyVersionOutput :: TrivyVersionOutput where
  "zero_TrivyVersionOutput = \<lparr>Trivy_Version = [], Trivy_VulnerabilityDB_UpdatedAt = []\<rparr>"

definition decode_strings :: "json \<Rightarrow> string list option" where
  "decode_strings j = decode_slice (\<lambda>e. decode_string e []) j"

definition Grype_Fix_field :: "string \<Rightarrow> json \<Rightarrow> GrypeMatch \<Rightarrow> GrypeMatch option" where
  "Grype_Fix_field key v m =
     (if matches_field key ''Versions'' then
        map_option (\<lambda>vs. m\<lparr>Grype_Vulnerability_Fix_Versions := vs\<rparr>) (decode_strings v)
      else Some m)"

definition Grype_Vulnerability_field :: "string \<Rightarrow> json \<Rightarrow> GrypeMatch \<Rightarrow> GrypeMatch option" where
  "Grype_Vulnerability_field key v m =
     (if matches_field key ''ID'' then
        map_option (\<lambda>s. m\<lparr>Grype_Vulnerability_ID := s\<rparr>) (decode_string v (Grype_Vulnerability_ID m))
      else if matches_field key ''DataSource'' then
        map_option (\<lambda>s. m\<lparr>Grype_Vulnerability_DataSource := s\<rparr>)
          (decode_string v (Grype_Vulnerability_DataSource m))
      else if matches_field key ''Severity'' then
        map_option (\<lambda>s. m\<lparr>Grype_Vulnerability_Severity := s\<rparr>)
          (decode_string v (Grype_Vulnerability_Severity m))
      else if matches_field key ''Fix'' then decode_struct Grype_Fix_field v m
      else Some m)"

definition Grype_Artifact_field :: "string \<Rightarrow> json \<Rightarrow> GrypeMatch \<Rightarrow> GrypeMatch option" where
  "Grype_Artifact_field key v m =
     (if matches_field key ''Name'' then
        map_option (\<lambda>s. m\<lparr>Grype_Artifact_Name := s\<rparr>) (decode_string v (Grype_Artifact_Name m))
      else if matches_field key ''Version'' then
        map_option (\<lambda>s. m\<lparr>Grype_Artifact_Version := s\<rparr>) (decode_string v (Grype_Artifact_Version m))
      else if matches_field key ''Type'' then
        map_option (\<lambda>s. m\<lparr>Grype_Artifact_Type := s\<rparr>) (decode_string v (Grype_Artifact_Type m))
      else Some m)"

definition GrypeMatch_field :: "string \<Rightarrow> json \<Rightarrow> GrypeMatch \<Rightarrow> GrypeMatch option" where
  "GrypeMatch_field key v m =
     (if matches_field key ''Vulnerability'' then decode_struct Grype_Vulnerability_field v m
      else if matches_field key ''Artifact'' then decode_struct Grype_Artifact_field v m
      else Some m)"

definition Grype_Db_field :: "string \<Rightarrow> json \<Rightarrow> GrypeScanOutput \<Rightarrow> GrypeScanOutput option" where
  "Grype_Db_field key v output =
     (if matches_field key ''Checksum'' then
        map_option (\<lambda>s. output\<lparr>Grype_Descriptor_Db_Checksum := s\<rparr>)
          (decode_string v (Grype_Descriptor_Db_Checksum output))
      else Some output)"

definition Grype_Descriptor_field :: "string \<Rightarrow> json \<Rightarrow> GrypeScanOutput \<Rightarrow> GrypeScanOutput option" where
  "Grype_Descriptor_field key v output =
     (if matches_field key ''Version'' then
        map_option (\<lambda>s. output\<lparr>Grype_Descriptor_Version := s\<rparr>)
          (decode_string v (Grype_Descriptor_Version output))
      else if matches_field key ''Db'' then decode_struct Grype_Db_field v output
      else Some output)"

definition Grype_Target_field :: "string \<Rightarrow> json \<Rightarrow> GrypeScanOutput \<Rightarrow> GrypeScanOutput option" where
  "Grype_Target_field key v output =
     (if matches_field key ''RepoDigests'' then
        map_option (\<lambda>ds. output\<lparr>Grype_Source_Target_RepoDigests := ds\<rparr>) (decode_strings v)
      else Some output)"

definition Grype_Source_field :: "string \<Rightarrow> json \<Rightarrow> GrypeScanOutput \<Rightarrow> GrypeScanOutput option" where
  "Grype_Source_field key v output =
     (if matches_field key ''Target'' then decode_struct Grype_Target_field v output
      else Some output)"

definition GrypeScanOutput_field :: "string \<Rightarrow> json \<Rightarrow> GrypeScanOutput \<Rightarrow> GrypeScanOutput option" where
  "GrypeScanOutput_field key v output =
     (if matches_field key ''Descriptor'' then decode_struct Grype_Descriptor_field v output
      else if matches_field key ''Source'' then decode_struct Grype_Source_field v output
      else if matches_field key ''Matches'' then
        map_option (\<lambda>ms. output\<lparr>Grype_Matches := ms\<rparr>)
          (decode_slice (\<lambda>e. decode_struct GrypeMatch_field e zero_GrypeMatch) v)
      else Some output)"

definition Unmarshal_GrypeScanOutput :: "string \<Rightarrow> json_error + GrypeScanOutput" where
  "Unmarshal_GrypeScanOutput data =
     (case json_value data of
        None \<Rightarrow> Inl SyntaxError
      | Some j \<Rightarrow>
          (case decode_struct GrypeScanOutput_field j zero_GrypeScanOutput of
             None \<Rightarrow> Inl UnmarshalTypeError
           | Some output \<Rightarrow> Inr output))"

definition TrivyVulnerability_field :: "string \<Rightarrow> json \<Rightarrow> TrivyVulnerability \<Rightarrow> TrivyVulnerability option" where
  "TrivyVulnerability_field key v vuln =
     (if matches_field key ''Severity'' then
        map_option (\<lambda>s. vuln\<lparr>Trivy_Severity := s\<rparr>) (decode_string v (Trivy_Severity vuln))
      else Some vuln)"

definition TrivyResult_field :: "string \<Rightarrow> json \<Rightarrow> TrivyResult \<Rightarrow> TrivyResult option" where
  "TrivyResult_field key v r =
     (if matches_field key ''Vulnerabilities'' then
        map_option (\<lambda>vs. r\<lparr>Trivy_Vulnerabilities := vs\<rparr>)
          (decode_slice (\<lambda>e. decode_struct TrivyVulnerability_field e \<lparr>Trivy_Severity = []\<rparr>) v)
      else Some r)"

definition Trivy_Metadata_field :: "string \<Rightarrow> json \<Rightarrow> TrivyScanOutput \<Rightarrow> TrivyScanOutput option" where
  "Trivy_Metadata_field key v output =
     (if matches_field key ''RepoDigests'' then
        map_option (\<lambda>ds. output\<lparr>Trivy_Metadata_RepoDigests := ds\<rparr>) (decode_strings v)
      else Some output)"

definition TrivyScanOutput_field :: "string \<Rightarrow> json \<Rightarrow> TrivyScanOutput \<Rightarrow> TrivyScanOutput option" where
  "TrivyScanOutput_field key v output =
     (if matches_field key ''Metadata'' then decode_struct Trivy_Metadata_field v output
      else if matches_field key ''Results'' then
        map_option (\<lambda>rs. output\<lparr>Trivy_Results := rs\<rparr>)
          (decode_slice (\<lambda>e. decode_struct TrivyResult_field e \<lparr>Trivy_Vulnerabilities = []\<rparr>) v)
      else Some output)"

definition Unmarshal_TrivyScanOutput :: "string \<Rightarrow> json_error + TrivyScanOutput" where
  "Unmarshal_TrivyScanOutput data =
     (case json_value data of
        None \<Rightarrow> Inl SyntaxError
      | Some j \<Rightarrow>
          (case decode_struct TrivyScanOutput_field j zero_TrivyScanOutput of
             None \<Rightarrow> Inl UnmarshalTypeError
           | Some output \<Rightarrow> Inr output))"

definition Trivy_VulnerabilityDB_field :: "string \<Rightarrow> json \<Rightarrow> TrivyVersionOutput \<Rightarrow> TrivyVersionOutput option" where
  "Trivy_VulnerabilityDB_field key v ver =
     (if matches_field key ''UpdatedAt'' then
        map_option (\<lambda>s. ver\<lparr>Trivy_VulnerabilityDB_UpdatedAt := s\<rparr>)
          (decode_string v (Trivy_VulnerabilityDB_UpdatedAt ver))
      else Some ver)"

definition TrivyVersionOutput_field :: "string \<Rightarrow> json \<Rightarrow> TrivyVersionOutput \<Rightarrow> TrivyVersionOutput option" where
  "TrivyVersionOutput_field key v ver =
     (if matches_field key ''Version'' then
        map_option (\<lambda>s. ver\<lparr>Trivy_Version := s\<rparr>) (decode_string v (Trivy_Version ver))
      else if matches_field key ''VulnerabilityDB'' then decode_struct Trivy_VulnerabilityDB_field v ver
      else Some ver)"

definition Unmarshal_TrivyVersionOutput :: "string \<Rightarrow> json_error + TrivyVersionOutput" where
  "Unmarshal_TrivyVersionOutput data =
     (case json_value data of
        None \<Rightarrow> Inl SyntaxError
      | Some j \<Rightarrow>
          (case decode_struct TrivyVersionOutput_field j zero_TrivyVersionOutput of
             None \<Rightarrow> Inl UnmarshalTypeError
           | Some ver \<Rightarrow> Inr ver))"

text \<open>
  What the scan functions get from outside: the temporary file, whether the scanner
  ran, the clock before and after, the bytes of the report, and for trivy the run and
  the output of its version command. They return an error, or the file name, the two
  times and the summary, which is absent when the format is not JSON. What they print
  besides the normalizer's warnings is left out.
\<close>

datatype go_error = OsError string | JsonError json_error | Errorf string

record scan_env =
  CreateTemp :: "string + string"
  Run :: "string option"
  startTime :: Time
  endTime :: Time
  ReadFile :: "string + string"
  VersionRun :: "string option"
  VersionOut :: string

type_synonym scan_result = "go_error + string \<times> Time \<times> Time \<times> ImageScanSummary option"

definition scanImageGrype :: "string \<Rightarrow> string \<Rightarrow> string \<Rightarrow> scan_env \<Rightarrow> scan_result outcome" where
  "scanImageGrype img format dockerConfig env =
     (case CreateTemp env of
        Inl e \<Rightarrow> Returns (Inl (OsError e))
      | Inr file \<Rightarrow>
     (case Run env of
        Some e \<Rightarrow> Returns (Inl (OsError e))
      | None \<Rightarrow>
     (case ReadFile env of
        Inl e \<Rightarrow> Returns (Inl (OsError e))
      | Inr b \<Rightarrow>
          if format = ''json'' then
            (case Unmarshal_GrypeScanOutput b of
               Inl e \<Rightarrow> Returns (Inl (JsonError e))
             | Inr output \<Rightarrow>
            (case grypeOutputToSummary img (startTime env) output of
               Panics p \<Rightarrow> Panics p
             | Returns r \<Rightarrow>
            (case Compact b of
               Inl e \<Rightarrow> Returns (Inl (JsonError e))
             | Inr buff \<Rightarrow>
                 Returns (Inr (file, startTime env, endTime env,
                   Some ((fst r)\<lparr>RawGrypeJSON := buff\<rparr>))))))
          else Returns (Inr (file, startTime env, endTime env, None)))))"

definition scanImageTrivy :: "string \<Rightarrow> string \<Rightarrow> string \<Rightarrow> scan_env \<Rightarrow> scan_result outcome" where
  "scanImageTrivy img format dockerConfig env =
     (case CreateTemp env of
        Inl e \<Rightarrow> Returns (Inl (OsError e))
      | Inr file \<Rightarrow>
     (case Run env of
        Some e \<Rightarrow> Returns (Inl (OsError e))
      | None \<Rightarrow>
     (case ReadFile env of
        Inl e \<Rightarrow> Returns (Inl (OsError e))
      | Inr b \<Rightarrow>
     (case VersionRun env of
        Some e \<Rightarrow> Returns (Inl (OsError e))
      | None \<Rightarrow>
     (case Unmarshal_TrivyVersionOutput (VersionOut env) of
        Inl e \<Rightarrow> Returns (Inl (JsonError e))
      | Inr trivyVersion \<Rightarrow>
          if format = ''json'' then
            (case Unmarshal_TrivyScanOutput b of
               Inl e \<Rightarrow> Returns (Inl (JsonError e))
             | Inr output \<Rightarrow>
            (case trivyOutputToSummary img (startTime env) output trivyVersion of
               Panics p \<Rightarrow> Panics p
             | Returns r \<Rightarrow>
                 Returns (Inr (file, startTime env, endTime env, Some (fst r)))))
          else Returns (Inr (file, startTime env, endTime env, None)))))))"

definition scanImage :: "string \<Rightarrow> string \<Rightarrow> string \<Rightarrow> string \<Rightarrow> scan_env \<Rightarrow> scan_result outcome" where
  "scanImage img scanner format dockerConfig env =
     (if scanner = ''trivy'' then scanImageTrivy img format dockerConfig env
      else if scanner = ''grype'' then scanImageGrype img format dockerConfig env
      else Returns (Inl (Errorf (''invalid scanner: '' @ scanner))))"


section \<open>The recognized severities, and sample inputs\<close>

text \<open>
  The severities the spec's table lists for each scanner; they are the labels of the
  two switches.
\<close>

definition grype_recognized :: "string \<Rightarrow> bool" where
  "grype_recognized sev =
     (sev \<in> {''Low'', ''Medium'', ''High'', ''Critical'', ''Negligible'', ''Unknown''})"


definition bucket_sum :: "ImageScanSummary \<Rightarrow> int" where
  "bucket_sum s =
     LowCveCount s + MedCveCount s + HighCveCount s + CritCveCount s +
     NegligibleCveCount s + UnknownCveCount s"

definition sample_time :: Time where
  "sample_time = \<lparr>t_year = 2023, t_month = 4, t_day = 5, t_hour = 6, t_minute = 7, t_second = 8\<rparr>"

definition high_match :: GrypeMatch where
  "high_match =
     \<lparr>Grype_Vulnerability_ID = ''CVE-2023-0001'', Grype_Vulnerability_DataSource = ''https://nvd'',
      Grype_Vulnerability_Severity = ''High'', Grype_Vulnerability_Fix_Versions = [''1.2.3''],
      Grype_Artifact_Name = ''openssl'', Grype_Artifact_Version = ''1.2.0'',
      Grype_Artifact_Type = ''apk''\<rparr>"

definition catastrophic_match :: GrypeMatch where
  "catastrophic_match =
     \<lparr>Grype_Vulnerability_ID = ''CVE-2023-0002'', Grype_Vulnerability_DataSource = ''https://nvd'',
      Grype_Vulnerability_Severity = ''Catastrophic'', Grype_Vulnerability_Fix_Versions = [],
      Grype_Artifact_Name = ''zlib'', Grype_Artifact_Version = ''1.0'',
      Grype_Artifact_Type = ''apk''\<rparr>"

definition sample_grype_output :: GrypeScanOutput where
  "sample_grype_output =
     \<lparr>Grype_Descriptor_Version = ''0.74.0'', Grype_Descriptor_Db_Checksum = ''sha256:db'',
      Grype_Source_Target_RepoDigests = [''cgr.dev/chainguard/static@sha256:abc''],
      Grype_Matches = [high_match, catastrophic_match]\<rparr>"

definition sample_grype_summary :: ImageScanSummary where
  "sample_grype_summary =
     \<lparr>ID = [], Image = ''static'', Digest = ''sha256:abc'', Scanner = ''grype'',
      ScannerVersion = ''0.74.0'', ScannerDbVersion = ''sha256:db'',
      Time = ''2023-04-05T06:07:08Z'', Created = [], LowCveCount = 0, MedCveCount = 0,
      HighCveCount = 1, CritCveCount = 0, NegligibleCveCount = 0, UnknownCveCount = 0,
      TotCveCount = 2, Success = True, RawGrypeJSON = []\<rparr>"

definition sample_trivy_output :: TrivyScanOutput where
  "sample_trivy_output =
     \<lparr>Trivy_Metadata_RepoDigests = [''cgr.dev/chainguard/static@sha256:abc''],
      Trivy_Results = [\<lparr>Trivy_Vulnerabilities = [\<lparr>Trivy_Severity = ''HIGH''\<rparr>]\<rparr>]\<rparr>"

definition sample_trivy_version :: TrivyVersionOutput where
  "sample_trivy_version =
     \<lparr>Trivy_Version = ''0.48.0'', Trivy_VulnerabilityDB_UpdatedAt = ''2023-04-01T00:00:00Z''\<rparr>"

definition sample_trivy_summary :: ImageScanSummary where
  "sample_trivy_summary =
     \<lparr>ID = [], Image = ''static'', Digest = ''sha256:abc'', Scanner = ''trivy'',
      ScannerVersion = ''0.48.0'', ScannerDbVersion = ''2023-04-01T00:00:00Z'',
      Time = ''2023-04-05T06:07:08Z'', Created = [], LowCveCount = 0, MedCveCount = 0,
      HighCveCount = 1, CritCveCount = 0, NegligibleCveCount = 0, UnknownCveCount = 0,
      TotCveCount = 1, Success = True, RawGrypeJSON = []\<rparr>"


definition no_digest_report :: string where
  \<open>no_digest_report = ''{"source": {"target": {"repoDigests": []}}, "matches": []}''\<close>

definition sample_env :: "string \<Rightarrow> scan_env" where
  "sample_env b =
     \<lparr>CreateTemp = Inr ''/tmp/scan-1'', Run = None, startTime = sample_time,
      endTime = sample_time\<lparr>t_second := 9\<rparr>, ReadFile = Inr b, VersionRun = None,
      VersionOut = ''{}''\<rparr>"

definition good_row :: Row where
  "good_row =
     \<lparr>col_GithubIssueId = 0, col_image = ''cgr.dev/chainguard/static'', col_digest = ''sha256:abc'',
      col_time = ''2023-04-05T06:07:08Z'', col_created = ''1970-01-01T00:00:00Z'',
      col_scanner = ''grype'', col_low_cve_count = 3, col_med_cve_count = 0,
      col_high_cve_count = 1, col_crit_cve_count = 0, col_negligible_cve_count = 12,
      col_raw_grype_json = []\<rparr>"

definition clean_row :: Row where
  "clean_row =
     good_row\<lparr>col_image := ''cgr.dev/chainguard/busybox'', col_low_cve_count := 0,
       col_high_cve_count := 0, col_negligible_cve_count := 0\<rparr>"

definition bad_row :: Row where
  \<open>bad_row = good_row\<lparr>col_image := ''cgr.dev/chainguard/nginx'', col_raw_grype_json := ''{"matches": [''\<rparr>\<close>

definition scan_row :: "string \<Rightarrow> string \<Rightarrow> Row" where
  "scan_row img t =
     \<lparr>col_GithubIssueId = 0, col_image = img, col_digest = ''sha256:abc'',
      col_time = t, col_created = ''1970-01-01T00:00:00Z'',
      col_scanner = ''grype'', col_low_cve_count = 1, col_med_cve_count = 0,
      col_high_cve_count = 0, col_crit_cve_count = 0, col_negligible_cve_count = 0,
      col_raw_grype_json = []\<rparr>"

text \<open>The row with row number 1 in the partition of image \<open>i\<close>.\<close>

definition latest_of :: "Row list \<Rightarrow> string \<Rightarrow> Row" where
  "latest_of rows i = last (sort_key col_time (filter (\<lambda>r. col_image r = i) rows))"

text \<open>
  The state of \<open>Compact\<close>'s copy that goes with a state of the scanner, and the state
  the scanner is in when the white space that ended a literal is gone.
\<close>

fun compact_state_of :: "token_state \<Rightarrow> compact_state" where
  "compact_state_of (InString s) = Inside"
| "compact_state_of (InStringEsc s) = InsideEsc"
| "compact_state_of st = Outside"

fun without_space :: "token_state \<Rightarrow> token_state" where
  "without_space (EndLiteral l) = InLiteral l"
| "without_space st = st"

definition sample_trivy_report :: string where
  \<open>sample_trivy_report =
     ''{"Metadata": {"RepoDigests": ["cgr.dev/chainguard/static@sha256:abc"]},
        "Results": [{"Vulnerabilities": [{"Severity": "HIGH"}]}]}''\<close>

definition sample_trivy_env :: scan_env where
  \<open>sample_trivy_env =
     (sample_env sample_trivy_report)
       \<lparr>VersionOut :=
          ''{"Version": "0.48.0", "VulnerabilityDB": {"UpdatedAt": "2023-04-01T00:00:00Z"}}''\<rparr>\<close>

definition sample_grype_report :: string where
  \<open>sample_grype_report =
     ''{"matches": [{"vulnerability": {"id": "CVE-2023-0001", "dataSource": "https://nvd",
                       "severity": "High", "fix": {"versions": ["1.2.3"], "state": "fixed"}},
                     "artifact": {"name": "openssl", "version": "1.2.0", "type": "apk"}}],
        "source": {"target": {"repoDigests": ["cgr.dev/chainguard/static@sha256:abc"]}},
        "descriptor": {"version": "0.74.0", "db": {"checksum": "sha256:db"}}}''\<close>

text \<open>
  Whether a key of the raw report selects one of the row's scalar fields.
\<close>

definition scalar_field_key :: "string \<Rightarrow> bool" where
  "scalar_field_key key =
     (matches_field key ''GithubIssueId'' \<or> matches_field key ''Image'' \<or>
      matches_field key ''Digest'' \<or> matches_field key ''Time'' \<or>
      matches_field key ''Created'' \<or> matches_field key ''Low'' \<or> matches_field key ''Med'' \<or>
      matches_field key ''High'' \<or> matches_field key ''Crit'' \<or>
      matches_field key ''Negligible'' \<or> matches_field key ''MatchesString'')"

definition top_level_keys :: "string \<Rightarrow> string list" where
  "top_level_keys data = (case json_value data of Some (JObject ms) \<Rightarrow> map fst ms | _ \<Rightarrow> [])"

definition sample_stored_row :: Row where
  "sample_stored_row = good_row\<lparr>col_raw_grype_json := compact Outside sample_grype_report\<rparr>"

definition sample_query_match :: Match where
  "sample_query_match =
     \<lparr>Match_Vuln =
        \<lparr>Vulnerability_CveId = ''CVE-2023-0001'', Vulnerability_Datasource = ''https://nvd'',
         Vulnerability_Severity = ''High''\<rparr>,
      Match_Nack = None,
      Match_Artifact =
        \<lparr>Artifact_Name = ''openssl'', Artifact_Version = ''1.2.0'', Artifact_Type = ''apk'',
         Artifact_Locations = None\<rparr>\<rparr>"

section \<open>Properties of the normalizers\<close>

lemma grype_count_recognized:
  "grype_recognized (Grype_Vulnerability_Severity m) \<Longrightarrow>
   bucket_sum (fst (grype_count m st)) = bucket_sum (fst st) + 1 \<and>
   snd (grype_count m st) = snd st \<and>
   TotCveCount (fst (grype_count m st)) = TotCveCount (fst st)"
  by (auto simp: grype_count_def grype_recognized_def bucket_sum_def Let_def)

lemma grype_count_unrecognized:
  "\<not> grype_recognized (Grype_Vulnerability_Severity m) \<Longrightarrow>
   grype_count m st =
     (fst st, snd st @ [unknown_severity_warning (Grype_Vulnerability_Severity m)])"
  by (auto simp: grype_count_def grype_recognized_def Let_def)

lemma grype_loop_sum:
  "bucket_sum (fst (grype_matches_loop ms st)) =
     bucket_sum (fst st) +
     int (length (filter (\<lambda>m. grype_recognized (Grype_Vulnerability_Severity m)) ms)) \<and>
   TotCveCount (fst (grype_matches_loop ms st)) = TotCveCount (fst st)"
proof (induction ms arbitrary: st)
  case Nil
  then show ?case by simp
next
  case (Cons m ms)
  show ?case
  proof (cases "grype_recognized (Grype_Vulnerability_Severity m)")
    case True
    with Cons[of "grype_count m st"] grype_count_recognized[OF True, of st]
    show ?thesis by simp
  next
    case False
    with Cons[of "grype_count m st"] show ?thesis
      by (simp add: grype_count_unrecognized)
  qed
qed

lemma length_filter_eq_iff:
  "length (filter P xs) = length xs \<longleftrightarrow> (\<forall>x\<in>set xs. P x)"
proof -
  have "length (filter P xs) + length (filter (\<lambda>x. \<not> P x) xs) = length xs"
    by (rule sum_length_filter_compl)
  then have "length (filter P xs) = length xs \<longleftrightarrow> filter (\<lambda>x. \<not> P x) xs = []"
    by auto
  then show ?thesis
    by (simp add: filter_empty_conv)
qed

lemma grypeOutputToSummary_Returns:
  assumes "grypeOutputToSummary img scanTime output = Returns (summary, out)"
  shows "\<exists>s0. grype_matches_loop (Grype_Matches output) (s0, []) = (summary, out) \<and>
           bucket_sum s0 = 0 \<and> TotCveCount s0 = int (length (Grype_Matches output))"
  using assms
  by (auto simp: grypeOutputToSummary_def Let_def bucket_sum_def zero_summary_def
        split: outcome.splits)

lemma sample_grype_run:
  "grypeOutputToSummary ''static'' sample_time sample_grype_output =
     Returns (sample_grype_summary, [unknown_severity_warning ''Catastrophic''])"
  by (simp add: grypeOutputToSummary_def sample_time_def sample_grype_output_def index_def
      zero_summary_def Format_def pad_def digit_def grype_count_def Let_def
      high_match_def catastrophic_match_def sample_grype_summary_def)

text \<open>
  C4. The six severity counts of a summary built from a grype report add up to at most
  its total, and to the total exactly when every match has a recognized severity.
\<close>

theorem grype_buckets_le_total:
  assumes "grypeOutputToSummary img scanTime output = Returns (summary, out)"
  shows "bucket_sum summary \<le> TotCveCount summary \<and>
         (bucket_sum summary = TotCveCount summary \<longleftrightarrow>
          (\<forall>m \<in> set (Grype_Matches output). grype_recognized (Grype_Vulnerability_Severity m)))"
proof -
  let ?P = "\<lambda>m. grype_recognized (Grype_Vulnerability_Severity m)"
  obtain s0 where s0: "grype_matches_loop (Grype_Matches output) (s0, []) = (summary, out)"
    and b0: "bucket_sum s0 = 0" and t0: "TotCveCount s0 = int (length (Grype_Matches output))"
    using grypeOutputToSummary_Returns[OF assms] by blast
  have sum: "bucket_sum summary = int (length (filter ?P (Grype_Matches output)))"
    using grype_loop_sum[of "Grype_Matches output" "(s0, [])"] b0 s0 by simp
  have tot: "TotCveCount summary = int (length (Grype_Matches output))"
    using grype_loop_sum[of "Grype_Matches output" "(s0, [])"] t0 s0 by simp
  show ?thesis
    using length_filter_le[of ?P "Grype_Matches output"]
      length_filter_eq_iff[of ?P "Grype_Matches output"]
    by (simp add: sum tot)
qed

theorem grype_buckets_le_total_witness:
  "grypeOutputToSummary ''static'' sample_time sample_grype_output =
     Returns (sample_grype_summary, [unknown_severity_warning ''Catastrophic'']) \<and>
   bucket_sum sample_grype_summary = 1 \<and> TotCveCount sample_grype_summary = 2 \<and>
   bucket_sum sample_grype_summary \<le> TotCveCount sample_grype_summary \<and>
   (bucket_sum sample_grype_summary = TotCveCount sample_grype_summary \<longleftrightarrow>
    (\<forall>m \<in> set (Grype_Matches sample_grype_output).
       grype_recognized (Grype_Vulnerability_Severity m)))"
  using grype_buckets_le_total[OF sample_grype_run] sample_grype_run
  by (simp add: bucket_sum_def sample_grype_summary_def)

















lemma Split_not_Nil: "Split s sep \<noteq> []"
  by (induction s) (auto split: list.splits)

lemma Split_no_separator: "sep \<notin> set s \<Longrightarrow> Split s sep = [s]"
  by (induction s) auto

lemma hd_Split: "hd (Split s sep) = takeWhile (\<lambda>c. c \<noteq> sep) s"
  by (induction s) (auto simp: Split_not_Nil split: list.splits)

lemma Split_at_first_separator:
  "sep \<notin> set repo \<Longrightarrow> Split (repo @ sep # rest) sep = repo # Split rest sep"
  by (induction repo) auto

lemma index_Split_second:
  "sep \<notin> set repo \<Longrightarrow>
   index (Split (repo @ sep # rest) sep) 1 = Returns (takeWhile (\<lambda>c. c \<noteq> sep) rest)"
  using Split_not_Nil[of rest sep] hd_Split[of rest sep]
  by (cases "Split rest sep") (auto simp: Split_at_first_separator index_def)

lemma grype_loop_Digest: "Digest (fst (grype_matches_loop ms st)) = Digest (fst st)"
proof (induction ms arbitrary: st)
  case Nil
  then show ?case by simp
next
  case (Cons m ms)
  have "Digest (fst (grype_count m st)) = Digest (fst st)"
    by (simp add: grype_count_def Let_def)
  with Cons[of "grype_count m st"] show ?case by simp
qed

lemma trivy_vulnerabilities_loop_Digest:
  "Digest (fst (snd (trivy_vulnerabilities_loop vs st))) = Digest (fst (snd st))"
proof (induction vs arbitrary: st)
  case Nil
  then show ?case by simp
next
  case (Cons v vs)
  have "Digest (fst (snd (trivy_count v st))) = Digest (fst (snd st))"
    by (simp add: trivy_count_def Let_def)
  with Cons[of "trivy_count v st"] show ?case by simp
qed

lemma trivy_results_loop_Digest:
  "Digest (fst (snd (trivy_results_loop rs st))) = Digest (fst (snd st))"
  by (induction rs arbitrary: st) (auto simp: trivy_vulnerabilities_loop_Digest)

text \<open>
  C2, as the code has it. The digest is the text between the first and the second
  \<open>@\<close> of the first repository digest, which is everything after the \<open>@\<close> when there
  is one only. With no repository digest, or none with an \<open>@\<close>, the normalizer
  panics on the index: it returns no error, and no summary.
\<close>

theorem digest_of_first_repo_digest:
  "grypeOutputToSummary img scanTime (goutput\<lparr>Grype_Source_Target_RepoDigests := []\<rparr>) =
     Panics (IndexOutOfRange 0 0) \<and>
   (CHR ''@'' \<notin> set d \<longrightarrow>
     grypeOutputToSummary img scanTime (goutput\<lparr>Grype_Source_Target_RepoDigests := d # ds\<rparr>) =
       Panics (IndexOutOfRange 1 1)) \<and>
   (CHR ''@'' \<notin> set repo \<longrightarrow>
     (\<exists>summary out.
        grypeOutputToSummary img scanTime
          (goutput\<lparr>Grype_Source_Target_RepoDigests := (repo @ CHR ''@'' # rest) # ds\<rparr>) =
          Returns (summary, out) \<and>
        Digest summary = takeWhile (\<lambda>c. c \<noteq> CHR ''@'') rest)) \<and>
   trivyOutputToSummary img scanTime (toutput\<lparr>Trivy_Metadata_RepoDigests := []\<rparr>) trivyVersion =
     Panics (IndexOutOfRange 0 0) \<and>
   (CHR ''@'' \<notin> set d \<longrightarrow>
     trivyOutputToSummary img scanTime (toutput\<lparr>Trivy_Metadata_RepoDigests := d # ds\<rparr>) trivyVersion =
       Panics (IndexOutOfRange 1 1)) \<and>
   (CHR ''@'' \<notin> set repo \<longrightarrow>
     (\<exists>summary out.
        trivyOutputToSummary img scanTime
          (toutput\<lparr>Trivy_Metadata_RepoDigests := (repo @ CHR ''@'' # rest) # ds\<rparr>) trivyVersion =
          Returns (summary, out) \<and>
        Digest summary = takeWhile (\<lambda>c. c \<noteq> CHR ''@'') rest))"
proof (intro conjI impI)
  show "grypeOutputToSummary img scanTime (goutput\<lparr>Grype_Source_Target_RepoDigests := []\<rparr>) =
     Panics (IndexOutOfRange 0 0)"
    by (simp add: grypeOutputToSummary_def index_def)
  show "trivyOutputToSummary img scanTime (toutput\<lparr>Trivy_Metadata_RepoDigests := []\<rparr>) trivyVersion =
     Panics (IndexOutOfRange 0 0)"
    by (simp add: trivyOutputToSummary_def index_def)
next
  assume "CHR ''@'' \<notin> set d"
  then have s: "Split d (CHR ''@'') = [d]" by (rule Split_no_separator)
  show "grypeOutputToSummary img scanTime (goutput\<lparr>Grype_Source_Target_RepoDigests := d # ds\<rparr>) =
       Panics (IndexOutOfRange 1 1)"
    by (simp add: grypeOutputToSummary_def index_def s)
  show "trivyOutputToSummary img scanTime (toutput\<lparr>Trivy_Metadata_RepoDigests := d # ds\<rparr>) trivyVersion =
       Panics (IndexOutOfRange 1 1)"
    by (simp add: trivyOutputToSummary_def index_def s)
next
  assume "CHR ''@'' \<notin> set repo"
  then have s: "index (Split (repo @ CHR ''@'' # rest) (CHR ''@'')) 1 =
      Returns (takeWhile (\<lambda>c. c \<noteq> CHR ''@'') rest)"
    by (rule index_Split_second)
  note s' = s[unfolded One_nat_def]
  have i: "index ((repo @ CHR ''@'' # rest) # ds) 0 = Returns (repo @ CHR ''@'' # rest)"
    by (simp add: index_def)
  show "\<exists>summary out.
        grypeOutputToSummary img scanTime
          (goutput\<lparr>Grype_Source_Target_RepoDigests := (repo @ CHR ''@'' # rest) # ds\<rparr>) =
          Returns (summary, out) \<and>
        Digest summary = takeWhile (\<lambda>c. c \<noteq> CHR ''@'') rest"
    using grype_loop_Digest
    by (simp add: grypeOutputToSummary_def Let_def s' i prod_eq_iff)
  show "\<exists>summary out.
        trivyOutputToSummary img scanTime
          (toutput\<lparr>Trivy_Metadata_RepoDigests := (repo @ CHR ''@'' # rest) # ds\<rparr>) trivyVersion =
          Returns (summary, out) \<and>
        Digest summary = takeWhile (\<lambda>c. c \<noteq> CHR ''@'') rest"
    using trivy_results_loop_Digest
    by (simp add: trivyOutputToSummary_def Let_def s' i)
qed

theorem digest_of_first_repo_digest_witness:
  "CHR ''@'' \<notin> set ''static'' \<and>
   grypeOutputToSummary ''static'' sample_time
     (sample_grype_output\<lparr>Grype_Source_Target_RepoDigests := [''static'']\<rparr>) =
     Panics (IndexOutOfRange 1 1) \<and>
   trivyOutputToSummary ''static'' sample_time
     (sample_trivy_output\<lparr>Trivy_Metadata_RepoDigests := [''static'']\<rparr>) sample_trivy_version =
     Panics (IndexOutOfRange 1 1) \<and>
   (\<exists>summary out.
      grypeOutputToSummary ''static'' sample_time
        (sample_grype_output\<lparr>Grype_Source_Target_RepoDigests := [''static'' @ CHR ''@'' # ''sha256:abc'']\<rparr>) =
        Returns (summary, out) \<and>
      Digest summary = ''sha256:abc'') \<and>
   (\<exists>summary out.
      trivyOutputToSummary ''static'' sample_time
        (sample_trivy_output\<lparr>Trivy_Metadata_RepoDigests := [''static'' @ CHR ''@'' # ''sha256:abc'']\<rparr>)
        sample_trivy_version = Returns (summary, out) \<and>
      Digest summary = ''sha256:abc'')"
proof -
  have h: "CHR ''@'' \<notin> set ''static''" by simp
  note inst = digest_of_first_repo_digest
    [where img = "''static''" and scanTime = sample_time and goutput = sample_grype_output
       and toutput = sample_trivy_output and trivyVersion = sample_trivy_version
       and d = "''static''" and ds = "[]" and repo = "''static''" and rest = "''sha256:abc''"]
  have t: "takeWhile (\<lambda>c. c \<noteq> CHR ''@'') ''sha256:abc'' = ''sha256:abc''" by simp
  from inst[THEN conjunct2, THEN conjunct1, rule_format, OF h]
    inst[THEN conjunct2, THEN conjunct2, THEN conjunct1, rule_format, OF h]
    inst[THEN conjunct2, THEN conjunct2, THEN conjunct2, THEN conjunct2, THEN conjunct1, rule_format, OF h]
    inst[THEN conjunct2, THEN conjunct2, THEN conjunct2, THEN conjunct2, THEN conjunct2, rule_format, OF h]
  show ?thesis
    unfolding t using h by blast
qed

theorem empty_repo_digests_panic_counterexample:
  "scanImage ''static'' ''grype'' ''json'' [] (sample_env no_digest_report) =
     Panics (IndexOutOfRange 0 0)"
  by code_simp






text \<open>
  C9. A row whose raw-report column is empty is appended as it was loaded, with no
  matches: nothing is parsed, nothing fails, and reading goes on with the next row.
\<close>

theorem empty_raw_report_decodes_to_no_matches:
  "col_raw_grype_json r = [] \<longrightarrow>
     read_rows (NextRow r # it) imageScans = read_rows it (imageScans @ [load r]) \<and>
     Scan_Matches (load r) = [] \<and>
     read_rows [NextRow r] [] = Inr [load r]"
  by (simp add: load_def)

theorem empty_raw_report_decodes_to_no_matches_witness:
  "col_raw_grype_json good_row = [] \<and>
   read_rows (NextRow good_row # [NextRow clean_row]) [] = Inr [load good_row, load clean_row] \<and>
   Scan_Matches (load good_row) = [] \<and>
   read_rows [NextRow good_row] [] = Inr [load good_row]"
proof -
  have h: "col_raw_grype_json good_row = []"
    by (simp add: good_row_def)
  have c: "read_rows [NextRow clean_row] [load good_row] = Inr [load good_row, load clean_row]"
    by (simp add: load_def clean_row_def good_row_def)
  from empty_raw_report_decodes_to_no_matches[of good_row "[NextRow clean_row]" "[]", rule_format, OF h]
  show ?thesis
    using h c by simp
qed

lemma read_rows_append:
  "read_rows (xs @ ys) acc =
     (case read_rows xs acc of Inl f \<Rightarrow> Inl f | Inr acc' \<Rightarrow> read_rows ys acc')"
proof (induction xs arbitrary: acc)
  case Nil
  then show ?case by simp
next
  case (Cons n xs)
  then show ?case
    by (simp add: Let_def split: sum.splits option.splits)
qed

text \<open>
  C3, as the code has it. A raw report that does not decode ends the whole run with
  \<open>log.Fatal\<close>: the rows read before it and the rows after it are not reported.
\<close>

theorem unmarshal_failure_aborts_batch:
  "read_rows pre [] = Inr imageScans \<longrightarrow>
   col_raw_grype_json r \<noteq> [] \<longrightarrow>
   Unmarshal_ImageCveScan (col_raw_grype_json r) (load r) = Inl e \<longrightarrow>
   query_main None (Inr (pre @ NextRow r # post)) = ([], Some (FailedUnmarshal e))"
  by (simp add: query_main_def read_rows_append load_def)

theorem unmarshal_failure_aborts_batch_counterexample:
  "query_main None (Inr [NextRow good_row]) =
     ([''cgr.dev/chainguard/static'', '' - Critical: 0'', '' - High:     1'',
       '' - Medium:   0'', '' - Low:      3'', '' - Neg:      12''], None) \<and>
   query_main None (Inr [NextRow bad_row, NextRow good_row]) =
     ([], Some (FailedUnmarshal SyntaxError)) \<and>
   query_main None (Inr [NextRow good_row, NextRow bad_row]) =
     ([], Some (FailedUnmarshal SyntaxError))"
  by code_simp

theorem unmarshal_failure_aborts_batch_witness:
  "read_rows [NextRow good_row] [] = Inr [load good_row] \<and>
   col_raw_grype_json bad_row \<noteq> [] \<and>
   Unmarshal_ImageCveScan (col_raw_grype_json bad_row) (load bad_row) = Inl SyntaxError \<and>
   query_main None (Inr ([NextRow good_row] @ NextRow bad_row # [NextRow clean_row])) =
     ([], Some (FailedUnmarshal SyntaxError))"
proof -
  have a: "read_rows [NextRow good_row] [] = Inr [load good_row]"
    by (simp add: good_row_def load_def)
  have b: "col_raw_grype_json bad_row \<noteq> []"
    by (simp add: bad_row_def)
  have c: "Unmarshal_ImageCveScan (col_raw_grype_json bad_row) (load bad_row) = Inl SyntaxError"
    by code_simp
  from unmarshal_failure_aborts_batch[rule_format, OF a b c, of "[NextRow clean_row]"]
  show ?thesis using a b c by simp
qed

lemma enumerate_fst_ge: "p \<in> set (enumerate n xs) \<Longrightarrow> n \<le> fst p"
  by (induction xs arbitrary: n) (auto simp: Suc_leD)

lemma first_of_row_number:
  "map snd (filter (\<lambda>x. fst x = 1) (row_number q)) = (case q of [] \<Rightarrow> [] | x # xs \<Rightarrow> [x])"
proof (cases q)
  case Nil
  then show ?thesis by (simp add: row_number_def)
next
  case (Cons x xs)
  have "\<forall>p \<in> set (enumerate (Suc (Suc 0)) xs). fst p \<noteq> Suc 0"
    using enumerate_fst_ge[of _ "Suc (Suc 0)" xs] by fastforce
  then have "filter (\<lambda>x. fst x = Suc 0) (enumerate (Suc (Suc 0)) xs) = []"
    by (simp add: filter_empty_conv)
  then show ?thesis
    using Cons by (simp add: row_number_def)
qed

lemma sorted_last_max:
  "sorted (map f ys) \<Longrightarrow> y \<in> set ys \<Longrightarrow> f y \<le> f (last ys)"
proof (induction ys)
  case Nil
  then show ?case by simp
next
  case (Cons a ys)
  show ?case
  proof (cases "ys = []")
    case True
    with Cons.prems show ?thesis by simp
  next
    case False
    then have l: "last ys \<in> set ys" by simp
    from Cons.prems(1) have s: "sorted (map f ys)" and a: "\<forall>x \<in> set ys. f a \<le> f x"
      by simp_all
    show ?thesis
    proof (cases "y = a")
      case True
      with a l False show ?thesis by simp
    next
      case n: False
      with Cons.prems(2) have "y \<in> set ys" by simp
      from Cons.IH[OF s this] False show ?thesis by simp
    qed
  qed
qed

lemma first_of_partition:
  assumes "i \<in> set (map col_image rows)"
  shows "map snd (filter (\<lambda>x. fst x = 1)
           (row_number (order_by_time_desc (filter (\<lambda>r. col_image r = i) rows)))) =
         [latest_of rows i]"
proof -
  let ?p = "filter (\<lambda>r. col_image r = i) rows"
  from assms have "?p \<noteq> []"
    by (auto simp: filter_empty_conv)
  then have ne: "sort_key col_time ?p \<noteq> []"
    using length_sort[of col_time ?p] by (cases "sort_key col_time ?p") auto
  have "rev (sort_key col_time ?p) = rev (butlast (sort_key col_time ?p) @ [last (sort_key col_time ?p)])"
    using ne by simp
  also have "\<dots> = last (sort_key col_time ?p) # rev (butlast (sort_key col_time ?p))"
    by simp
  finally have "order_by_time_desc ?p =
      last (sort_key col_time ?p) # rev (butlast (sort_key col_time ?p))"
    by (simp add: order_by_time_desc_def)
  then show ?thesis
    using first_of_row_number[of "order_by_time_desc ?p"]
    by (simp add: latest_of_def)
qed

lemma latest_scan_query_eq:
  "latest_scan_query table =
     sort_key col_image
       (map (latest_of (where_scanner_grype table))
          (remdups (map col_image (where_scanner_grype table))))"
proof -
  let ?rows = "where_scanner_grype table"
  have "map snd (filter (\<lambda>x. fst x = 1)
          (concat (map (\<lambda>p. row_number (order_by_time_desc p))
             (map (\<lambda>i. filter (\<lambda>r. col_image r = i) ?rows) is)))) =
        map (latest_of ?rows) is" if "set is \<subseteq> set (map col_image ?rows)" for "is"
    using that
  proof (induction "is")
    case Nil
    then show ?case by simp
  next
    case (Cons i "is")
    then have "i \<in> set (map col_image ?rows)" by simp
    from first_of_partition[OF this] Cons show ?case by simp
  qed
  from this[of "remdups (map col_image ?rows)"] show ?thesis
    by (simp add: latest_scan_query_def partition_by_image_def)
qed


lemma latest_of_in_partition:
  assumes "i \<in> set (map col_image rows)"
  shows "latest_of rows i \<in> set rows \<and> col_image (latest_of rows i) = i \<and>
         (\<forall>r \<in> set rows. col_image r = i \<longrightarrow> col_time r \<le> col_time (latest_of rows i))"
proof -
  let ?p = "filter (\<lambda>r. col_image r = i) rows"
  let ?s = "sort_key col_time ?p"
  from assms have "?p \<noteq> []"
    by (auto simp: filter_empty_conv)
  then have ne: "?s \<noteq> []"
    using length_sort[of col_time ?p] by (cases ?s) auto
  then have "last ?s \<in> set ?s" by (rule last_in_set)
  then have m: "latest_of rows i \<in> set ?p"
    by (simp only: latest_of_def set_sort)
  have "col_time r \<le> col_time (latest_of rows i)" if "r \<in> set rows" "col_image r = i" for r
  proof -
    from that have "r \<in> set ?s" by simp
    from sorted_last_max[OF sorted_sort_key this] show ?thesis
      by (simp add: latest_of_def)
  qed
  with m show ?thesis by auto
qed

lemma latest_scan_query_images:
  "map col_image (map (latest_of rows) (remdups (map col_image rows))) = remdups (map col_image rows)"
proof -
  have "map col_image (map (latest_of rows) is) = is" if "set is \<subseteq> set (map col_image rows)" for "is"
    using that
  proof (induction "is")
    case Nil
    then show ?case by simp
  next
    case (Cons i "is")
    then have "i \<in> set (map col_image rows)" by simp
    from latest_of_in_partition[OF this] Cons show ?case by simp
  qed
  from this[of "remdups (map col_image rows)"] show ?thesis by simp
qed

lemma distinct_map_sort_key:
  "distinct (map f (sort_key g xs)) = distinct (map f xs)"
  by (simp add: distinct_map)

lemma latest_scan_query_general:
  "distinct (map col_image (latest_scan_query table)) \<and>
   sorted (map col_image (latest_scan_query table)) \<and>
   set (map col_image (latest_scan_query table)) =
     col_image ` {r \<in> set table. col_scanner r = ''grype''} \<and>
   (\<forall>r \<in> set (latest_scan_query table).
      r \<in> set table \<and> col_scanner r = ''grype'' \<and>
      (\<forall>r' \<in> set table. col_scanner r' = ''grype'' \<and> col_image r' = col_image r \<longrightarrow>
         col_time r' \<le> col_time r))"
proof -
  let ?rows = "where_scanner_grype table"
  let ?imgs = "remdups (map col_image ?rows)"
  let ?L = "map (latest_of ?rows) ?imgs"
  have rows: "set ?rows = {r \<in> set table. col_scanner r = ''grype''}"
    by (auto simp: where_scanner_grype_def)
  have q: "latest_scan_query table = sort_key col_image ?L"
    by (rule latest_scan_query_eq)
  have imgs: "map col_image ?L = ?imgs"
    by (rule latest_scan_query_images)
  have d: "distinct (map col_image (latest_scan_query table))"
    unfolding q distinct_map_sort_key imgs by simp
  have s: "sorted (map col_image (latest_scan_query table))"
    unfolding q by (rule sorted_sort_key)
  have "set (map col_image (latest_scan_query table)) = set (map col_image ?L)"
    unfolding q by (simp only: set_map set_sort)
  then have i: "set (map col_image (latest_scan_query table)) =
      col_image ` {r \<in> set table. col_scanner r = ''grype''}"
    unfolding imgs using rows by simp
  have m: "r \<in> set table \<and> col_scanner r = ''grype'' \<and>
      (\<forall>r' \<in> set table. col_scanner r' = ''grype'' \<and> col_image r' = col_image r \<longrightarrow>
         col_time r' \<le> col_time r)" if "r \<in> set (latest_scan_query table)" for r
  proof -
    from that obtain i where i: "i \<in> set (map col_image ?rows)" and r: "r = latest_of ?rows i"
      unfolding q by auto
    from latest_of_in_partition[OF i] r rows show ?thesis by auto
  qed
  from d s i m show ?thesis by blast
qed

text \<open>
  C7. From the rows of one scanner the query keeps one row for each image, a row of
  that image with the greatest time, ordered by image. With three rows of image
  \<open>X\<close> at times \<open>T1 < T2 < T3\<close> and one row of image \<open>Y\<close>, held in any order, it
  returns the row at \<open>T3\<close> and the row of \<open>Y\<close>, and nothing else.
\<close>

theorem latest_scan_query_selects_latest:
  "distinct (map col_image (latest_scan_query table)) \<and>
   sorted (map col_image (latest_scan_query table)) \<and>
   set (map col_image (latest_scan_query table)) =
     col_image ` {r \<in> set table. col_scanner r = ''grype''} \<and>
   (\<forall>r \<in> set (latest_scan_query table).
      r \<in> set table \<and> col_scanner r = ''grype'' \<and>
      (\<forall>r' \<in> set table. col_scanner r' = ''grype'' \<and> col_image r' = col_image r \<longrightarrow>
         col_time r' \<le> col_time r)) \<and>
   (set table = {x1, x2, x3, y} \<and> (\<forall>r \<in> set table. col_scanner r = ''grype'') \<and>
    col_image x1 = X \<and> col_image x2 = X \<and> col_image x3 = X \<and> col_image y = Y \<and> X \<noteq> Y \<and>
    col_time x1 < col_time x2 \<and> col_time x2 < col_time x3 \<longrightarrow>
      set (latest_scan_query table) = {x3, y} \<and> length (latest_scan_query table) = 2)"
proof -
  let ?res = "latest_scan_query table"
  note g = latest_scan_query_general[of table]
  note gd = g[THEN conjunct1]
  note gi = g[THEN conjunct2, THEN conjunct2, THEN conjunct1]
  note gm = g[THEN conjunct2, THEN conjunct2, THEN conjunct2]
  have p: "set ?res = {x3, y} \<and> length ?res = 2"
    if a: "set table = {x1, x2, x3, y} \<and> (\<forall>r \<in> set table. col_scanner r = ''grype'') \<and>
      col_image x1 = X \<and> col_image x2 = X \<and> col_image x3 = X \<and> col_image y = Y \<and> X \<noteq> Y \<and>
      col_time x1 < col_time x2 \<and> col_time x2 < col_time x3"
  proof -
    from a have tab: "set table = {x1, x2, x3, y}"
      and gr: "\<forall>r \<in> set table. col_scanner r = ''grype''"
      and ix: "col_image x1 = X" "col_image x2 = X" "col_image x3 = X" "col_image y = Y"
      and ne: "X \<noteq> Y" and t12: "col_time x1 < col_time x2" and t23: "col_time x2 < col_time x3"
      by simp_all
    from gr have all: "{r \<in> set table. col_scanner r = ''grype''} = set table"
      by blast
    have "set (map col_image ?res) = col_image ` set table"
      using gi by (simp only: all)
    then have imgs: "set (map col_image ?res) = {X, Y}"
      unfolding tab using ix by simp
    have sub: "r = x3 \<or> r = y" if "r \<in> set ?res" for r
    proof -
      from gm[rule_format, OF that] have rt: "r \<in> set table"
        and mx: "\<forall>r' \<in> set table. col_scanner r' = ''grype'' \<and> col_image r' = col_image r \<longrightarrow>
           col_time r' \<le> col_time r"
        by simp_all
      have x3: "x3 \<in> set table" "col_scanner x3 = ''grype''"
        using tab gr by simp_all
      from rt tab consider "r = x1" | "r = x2" | "r = x3" | "r = y" by auto
      then show ?thesis
      proof cases
        case 1
        with mx[rule_format, OF x3(1)] x3(2) ix have "col_time x3 \<le> col_time x1" by simp
        with t12 t23 show ?thesis by simp
      next
        case 2
        with mx[rule_format, OF x3(1)] x3(2) ix have "col_time x3 \<le> col_time x2" by simp
        with t23 show ?thesis by simp
      next
        case 3
        then show ?thesis by simp
      next
        case 4
        then show ?thesis by simp
      qed
    qed
    have "X \<in> set (map col_image ?res)" using imgs by simp
    then obtain rx where rx: "rx \<in> set ?res" "col_image rx = X" by auto
    have "Y \<in> set (map col_image ?res)" using imgs by simp
    then obtain ry where ry: "ry \<in> set ?res" "col_image ry = Y" by auto
    from sub[OF rx(1)] rx(2) ix ne have "rx = x3" by auto
    with rx have m3: "x3 \<in> set ?res" by simp
    from sub[OF ry(1)] ry(2) ix ne have "ry = y" by auto
    with ry have my: "y \<in> set ?res" by simp
    have s: "set ?res = {x3, y}"
    proof
      show "set ?res \<subseteq> {x3, y}" using sub by blast
      show "{x3, y} \<subseteq> set ?res" using m3 my by simp
    qed
    from gd have "length (map col_image ?res) = card (set (map col_image ?res))"
      by (simp only: distinct_card)
    with imgs ne have "length ?res = 2" by simp
    with s show ?thesis by simp
  qed
  note gs = g[THEN conjunct2, THEN conjunct1]
  from p have pp: "set table = {x1, x2, x3, y} \<and> (\<forall>r \<in> set table. col_scanner r = ''grype'') \<and>
      col_image x1 = X \<and> col_image x2 = X \<and> col_image x3 = X \<and> col_image y = Y \<and> X \<noteq> Y \<and>
      col_time x1 < col_time x2 \<and> col_time x2 < col_time x3 \<longrightarrow>
      set ?res = {x3, y} \<and> length ?res = 2"
    by (rule impI)
  show ?thesis
    by (rule conjI[OF gd conjI[OF gs conjI[OF gi conjI[OF gm pp]]]])
qed

theorem latest_scan_query_selects_latest_witness:
  "set [scan_row ''x'' ''2023-01-02T00:00:00Z'', scan_row ''y'' ''2023-01-04T00:00:00Z'',
        scan_row ''x'' ''2023-01-03T00:00:00Z'', scan_row ''x'' ''2023-01-01T00:00:00Z''] =
     {scan_row ''x'' ''2023-01-01T00:00:00Z'', scan_row ''x'' ''2023-01-02T00:00:00Z'',
      scan_row ''x'' ''2023-01-03T00:00:00Z'', scan_row ''y'' ''2023-01-04T00:00:00Z''} \<and>
   ''x'' \<noteq> ''y'' \<and> ''2023-01-01T00:00:00Z'' < ''2023-01-02T00:00:00Z'' \<and>
   ''2023-01-02T00:00:00Z'' < ''2023-01-03T00:00:00Z'' \<and>
   set (latest_scan_query
     [scan_row ''x'' ''2023-01-02T00:00:00Z'', scan_row ''y'' ''2023-01-04T00:00:00Z'',
      scan_row ''x'' ''2023-01-03T00:00:00Z'', scan_row ''x'' ''2023-01-01T00:00:00Z'']) =
     {scan_row ''x'' ''2023-01-03T00:00:00Z'', scan_row ''y'' ''2023-01-04T00:00:00Z''} \<and>
   length (latest_scan_query
     [scan_row ''x'' ''2023-01-02T00:00:00Z'', scan_row ''y'' ''2023-01-04T00:00:00Z'',
      scan_row ''x'' ''2023-01-03T00:00:00Z'', scan_row ''x'' ''2023-01-01T00:00:00Z'']) = 2 \<and>
   latest_scan_query
     [scan_row ''x'' ''2023-01-02T00:00:00Z'', scan_row ''y'' ''2023-01-04T00:00:00Z'',
      scan_row ''x'' ''2023-01-03T00:00:00Z'', scan_row ''x'' ''2023-01-01T00:00:00Z''] =
     [scan_row ''x'' ''2023-01-03T00:00:00Z'', scan_row ''y'' ''2023-01-04T00:00:00Z'']"
proof -
  let ?table = "[scan_row ''x'' ''2023-01-02T00:00:00Z'', scan_row ''y'' ''2023-01-04T00:00:00Z'',
        scan_row ''x'' ''2023-01-03T00:00:00Z'', scan_row ''x'' ''2023-01-01T00:00:00Z'']"
  have h: "set ?table = {scan_row ''x'' ''2023-01-01T00:00:00Z'', scan_row ''x'' ''2023-01-02T00:00:00Z'',
      scan_row ''x'' ''2023-01-03T00:00:00Z'', scan_row ''y'' ''2023-01-04T00:00:00Z''} \<and>
    (\<forall>r \<in> set ?table. col_scanner r = ''grype'') \<and>
    col_image (scan_row ''x'' ''2023-01-01T00:00:00Z'') = ''x'' \<and>
    col_image (scan_row ''x'' ''2023-01-02T00:00:00Z'') = ''x'' \<and>
    col_image (scan_row ''x'' ''2023-01-03T00:00:00Z'') = ''x'' \<and>
    col_image (scan_row ''y'' ''2023-01-04T00:00:00Z'') = ''y'' \<and> ''x'' \<noteq> ''y'' \<and>
    col_time (scan_row ''x'' ''2023-01-01T00:00:00Z'') < col_time (scan_row ''x'' ''2023-01-02T00:00:00Z'') \<and>
    col_time (scan_row ''x'' ''2023-01-02T00:00:00Z'') < col_time (scan_row ''x'' ''2023-01-03T00:00:00Z'')"
    by (auto simp: scan_row_def)
  have e: "latest_scan_query ?table =
     [scan_row ''x'' ''2023-01-03T00:00:00Z'', scan_row ''y'' ''2023-01-04T00:00:00Z'']"
    by code_simp
  from latest_scan_query_selects_latest[of ?table, THEN conjunct2, THEN conjunct2, THEN conjunct2,
      THEN conjunct2, rule_format, OF h]
  show ?thesis
    using h e by (simp add: scan_row_def)
qed

lemma punctuation_Some:
  "punctuation c = Some t \<Longrightarrow> \<not> isSpace c \<and> c \<noteq> CHR 0x22 \<and> c \<noteq> CHR 0x5C"
  by (auto simp: punctuation_def isSpace_def split: if_splits)

lemma isSpace_not_special: "isSpace c \<Longrightarrow> c \<noteq> CHR 0x22 \<and> punctuation c = None"
  by (auto simp: punctuation_def isSpace_def)

lemma tokenize_compact:
  "tokenize st s = Some ts \<Longrightarrow>
   tokenize (without_space st) (compact (compact_state_of st) s) = Some ts"
proof (induction s arbitrary: st ts)
  case Nil
  then show ?case by (cases st) auto
next
  case (Cons c cs)
  show ?case
  proof (cases st)
    case BeginToken
    with Cons.prems Cons.IH[of BeginToken] Cons.IH[of "InString []"] Cons.IH[of "InLiteral [c]"]
    show ?thesis
      by (auto simp: isSpace_not_special split: if_splits option.splits dest: punctuation_Some)
  next
    case (InString x)
    with Cons.prems Cons.IH[of BeginToken] Cons.IH[of "InString (x @ [c])"]
      Cons.IH[of "InStringEsc (x @ [c])"]
    show ?thesis
      by (auto split: if_splits)
  next
    case (InStringEsc x)
    with Cons.prems Cons.IH[of "InString (x @ [c])"] show ?thesis
      by auto
  next
    case (InLiteral l)
    with Cons.prems Cons.IH[of BeginToken] Cons.IH[of "EndLiteral l"] Cons.IH[of "InLiteral (l @ [c])"]
    show ?thesis
      by (auto simp: isSpace_not_special split: if_splits option.splits dest: punctuation_Some)
  next
    case (EndLiteral l)
    with Cons.prems Cons.IH[of BeginToken] Cons.IH[of "EndLiteral l"]
    show ?thesis
      by (auto simp: isSpace_not_special split: if_splits option.splits dest: punctuation_Some)
  qed
qed

lemma json_value_compact:
  "json_value src = Some v \<Longrightarrow> json_value (compact Outside src) = Some v"
  using tokenize_compact[of BeginToken src]
  by (auto simp: json_value_def split: option.splits)

lemma Compact_preserves_value:
  "Compact src = Inr dst \<Longrightarrow> json_value dst = json_value src \<and> json_value src \<noteq> None"
  using json_value_compact[of src]
  by (auto simp: Compact_def split: option.splits)

lemma compact_idem: "compact st (compact st s) = compact st s"
  by (induction st s rule: compact.induct) auto

lemma trivy_vulnerabilities_loop_RawGrypeJSON:
  "RawGrypeJSON (fst (snd (trivy_vulnerabilities_loop vs st))) = RawGrypeJSON (fst (snd st))"
proof (induction vs arbitrary: st)
  case Nil
  then show ?case by simp
next
  case (Cons v vs)
  have "RawGrypeJSON (fst (snd (trivy_count v st))) = RawGrypeJSON (fst (snd st))"
    by (simp add: trivy_count_def Let_def)
  with Cons[of "trivy_count v st"] show ?case by simp
qed

lemma trivy_results_loop_RawGrypeJSON:
  "RawGrypeJSON (fst (snd (trivy_results_loop rs st))) = RawGrypeJSON (fst (snd st))"
  by (induction rs arbitrary: st) (auto simp: trivy_vulnerabilities_loop_RawGrypeJSON)

lemma trivyOutputToSummary_RawGrypeJSON:
  "trivyOutputToSummary img scanTime output trivyVersion = Returns r \<Longrightarrow> RawGrypeJSON (fst r) = []"
  using trivy_results_loop_RawGrypeJSON
  by (auto simp: trivyOutputToSummary_def Let_def zero_summary_def split: outcome.splits)

lemma scanImageGrype_summary:
  assumes "scanImageGrype img format dockerConfig env = Returns (Inr (file, t0, t1, Some summary))"
  shows "\<exists>b output r.
           ReadFile env = Inr b \<and> format = ''json'' \<and> Unmarshal_GrypeScanOutput b = Inr output \<and>
           grypeOutputToSummary img (startTime env) output = Returns r \<and>
           Compact b = Inr (RawGrypeJSON summary) \<and>
           summary = (fst r)\<lparr>RawGrypeJSON := RawGrypeJSON summary\<rparr>"
  using assms
  by (auto simp: scanImageGrype_def split: sum.splits option.splits if_splits outcome.splits)

lemma scanImageTrivy_summary:
  assumes "scanImageTrivy img format dockerConfig env = Returns (Inr (file, t0, t1, Some summary))"
  shows "\<exists>output trivyVersion r.
           trivyOutputToSummary img (startTime env) output trivyVersion = Returns r \<and>
           summary = fst r"
  using assms
  by (fastforce simp: scanImageTrivy_def split: sum.splits option.splits if_splits outcome.splits)

text \<open>
  C6, as the code has it. A grype scan that returns a summary has put the report in
  it, compacted, and the compacted text is a JSON text of the same value. A trivy
  scan's summary holds no report.
\<close>

theorem raw_report_embedded_by_grype_scan:
  "(scanImageGrype img format dockerConfig env = Returns (Inr (file, t0, t1, Some summary)) \<longrightarrow>
      (\<exists>b. ReadFile env = Inr b \<and> Compact b = Inr (RawGrypeJSON summary) \<and>
           RawGrypeJSON summary = compact Outside b \<and>
           json_value (RawGrypeJSON summary) = json_value b \<and> json_value b \<noteq> None)) \<and>
   (scanImageTrivy img format dockerConfig env = Returns (Inr (file, t0, t1, Some summary)) \<longrightarrow>
      RawGrypeJSON summary = [])"
proof (intro conjI impI)
  assume "scanImageGrype img format dockerConfig env = Returns (Inr (file, t0, t1, Some summary))"
  from scanImageGrype_summary[OF this] obtain b where
    b: "ReadFile env = Inr b" and c: "Compact b = Inr (RawGrypeJSON summary)"
    by blast
  from c have "RawGrypeJSON summary = compact Outside b"
    by (auto simp: Compact_def split: option.splits)
  with b c Compact_preserves_value[OF c]
  show "\<exists>b. ReadFile env = Inr b \<and> Compact b = Inr (RawGrypeJSON summary) \<and>
           RawGrypeJSON summary = compact Outside b \<and>
           json_value (RawGrypeJSON summary) = json_value b \<and> json_value b \<noteq> None"
    by blast
next
  assume "scanImageTrivy img format dockerConfig env = Returns (Inr (file, t0, t1, Some summary))"
  from scanImageTrivy_summary[OF this] trivyOutputToSummary_RawGrypeJSON
  show "RawGrypeJSON summary = []"
    by blast
qed

lemma sample_grype_scan:
  "scanImageGrype ''static'' ''json'' [] (sample_env sample_grype_report) =
     Returns (Inr (''/tmp/scan-1'', sample_time, sample_time\<lparr>t_second := 9\<rparr>,
       Some (sample_grype_summary\<lparr>TotCveCount := 1,
               RawGrypeJSON := compact Outside sample_grype_report\<rparr>)))"
  by code_simp

lemma sample_trivy_scan:
  "scanImageTrivy ''static'' ''json'' [] sample_trivy_env =
     Returns (Inr (''/tmp/scan-1'', sample_time, sample_time\<lparr>t_second := 9\<rparr>,
       Some sample_trivy_summary))"
  by code_simp

theorem raw_report_embedded_by_grype_scan_witness:
  "scanImageGrype ''static'' ''json'' [] (sample_env sample_grype_report) =
     Returns (Inr (''/tmp/scan-1'', sample_time, sample_time\<lparr>t_second := 9\<rparr>,
       Some (sample_grype_summary\<lparr>TotCveCount := 1,
               RawGrypeJSON := compact Outside sample_grype_report\<rparr>))) \<and>
   Compact sample_grype_report = Inr (compact Outside sample_grype_report) \<and>
   json_value (compact Outside sample_grype_report) = json_value sample_grype_report \<and>
   json_value sample_grype_report \<noteq> None \<and>
   scanImageTrivy ''static'' ''json'' [] sample_trivy_env =
     Returns (Inr (''/tmp/scan-1'', sample_time, sample_time\<lparr>t_second := 9\<rparr>,
       Some sample_trivy_summary)) \<and>
   RawGrypeJSON sample_trivy_summary = []"
proof -
  note g = raw_report_embedded_by_grype_scan[THEN conjunct1, rule_format, OF sample_grype_scan]
  note t = raw_report_embedded_by_grype_scan[THEN conjunct2, rule_format, OF sample_trivy_scan]
  have r: "ReadFile (sample_env sample_grype_report) = Inr sample_grype_report"
    by (simp add: sample_env_def)
  from g r have "Compact sample_grype_report = Inr (compact Outside sample_grype_report) \<and>
      json_value (compact Outside sample_grype_report) = json_value sample_grype_report \<and>
      json_value sample_grype_report \<noteq> None"
    by auto
  with t sample_grype_scan sample_trivy_scan show ?thesis
    by simp
qed

theorem trivy_summary_has_no_raw_report_counterexample:
  "scanImage ''static'' ''trivy'' ''json'' [] sample_trivy_env =
     Returns (Inr (''/tmp/scan-1'', sample_time, sample_time\<lparr>t_second := 9\<rparr>,
       Some sample_trivy_summary)) \<and>
   RawGrypeJSON sample_trivy_summary = [] \<and>
   ReadFile sample_trivy_env = Inr sample_trivy_report \<and>
   json_value sample_trivy_report \<noteq> None \<and> sample_trivy_report \<noteq> []"
  by code_simp


lemma ImageCveScan_field_frame:
  "\<not> scalar_field_key key \<Longrightarrow> ImageCveScan_field key v row = Some row' \<Longrightarrow>
   row' = row\<lparr>Scan_Matches := Scan_Matches row'\<rparr>"
  by (auto simp: ImageCveScan_field_def scalar_field_key_def split: if_splits)

lemma ImageCveScan_members_frame:
  "\<forall>m \<in> set ms. \<not> scalar_field_key (fst m) \<Longrightarrow>
   decode_members ImageCveScan_field ms row = Some row' \<Longrightarrow>
   row' = row\<lparr>Scan_Matches := Scan_Matches row'\<rparr>"
proof (induction ms arbitrary: row)
  case Nil
  then show ?case by simp
next
  case (Cons m ms)
  from Cons.prems(2) obtain row1 where
    1: "ImageCveScan_field (fst m) (snd m) row = Some row1"
    and 2: "decode_members ImageCveScan_field ms row1 = Some row'"
    by (auto split: option.splits)
  from Cons.prems(1) have k: "\<not> scalar_field_key (fst m)" by simp
  from ImageCveScan_field_frame[OF k 1] have a: "row1 = row\<lparr>Scan_Matches := Scan_Matches row1\<rparr>" .
  from Cons.IH[OF _ 2] Cons.prems(1) have b: "row' = row1\<lparr>Scan_Matches := Scan_Matches row'\<rparr>"
    by simp
  have "row1\<lparr>Scan_Matches := Scan_Matches row'\<rparr> = row\<lparr>Scan_Matches := Scan_Matches row'\<rparr>"
    by (subst a) simp
  with b show ?case by simp
qed

text \<open>
  C10. Decoding a raw report into the row it came with changes the row's \<open>Matches\<close>
  only, when no key of the report's object selects one of the scalar fields: the
  image, the digest, the times and the counts are what the store returned.
\<close>

theorem reparse_changes_only_matches:
  "Unmarshal_ImageCveScan data row = Inr row' \<longrightarrow>
   (\<forall>key \<in> set (top_level_keys data). \<not> scalar_field_key key) \<longrightarrow>
   row' = row\<lparr>Scan_Matches := Scan_Matches row'\<rparr> \<and>
   Scan_Image row' = Scan_Image row \<and> Scan_Digest row' = Scan_Digest row \<and>
   Scan_Time row' = Scan_Time row \<and> Scan_Created row' = Scan_Created row \<and>
   Scan_Low row' = Scan_Low row \<and> Scan_Med row' = Scan_Med row \<and>
   Scan_High row' = Scan_High row \<and> Scan_Crit row' = Scan_Crit row \<and>
   Scan_Negligible row' = Scan_Negligible row"
proof (intro impI)
  assume u: "Unmarshal_ImageCveScan data row = Inr row'"
    and k: "\<forall>key \<in> set (top_level_keys data). \<not> scalar_field_key key"
  from u obtain j where j: "json_value data = Some j"
    and d: "decode_struct ImageCveScan_field j row = Some row'"
    by (auto simp: Unmarshal_ImageCveScan_def split: option.splits)
  have e: "row' = row\<lparr>Scan_Matches := Scan_Matches row'\<rparr>"
  proof (cases j)
    case JNull
    with d show ?thesis by (simp add: decode_struct_def)
  next
    case (JObject ms)
    with k j have "\<forall>m \<in> set ms. \<not> scalar_field_key (fst m)"
      by (simp add: top_level_keys_def)
    from ImageCveScan_members_frame[OF this] d JObject show ?thesis
      by (simp add: decode_struct_def)
  qed (use d in \<open>simp_all add: decode_struct_def\<close>)
  have "Scan_Image (row\<lparr>Scan_Matches := x\<rparr>) = Scan_Image row \<and>
        Scan_Digest (row\<lparr>Scan_Matches := x\<rparr>) = Scan_Digest row \<and>
        Scan_Time (row\<lparr>Scan_Matches := x\<rparr>) = Scan_Time row \<and>
        Scan_Created (row\<lparr>Scan_Matches := x\<rparr>) = Scan_Created row \<and>
        Scan_Low (row\<lparr>Scan_Matches := x\<rparr>) = Scan_Low row \<and>
        Scan_Med (row\<lparr>Scan_Matches := x\<rparr>) = Scan_Med row \<and>
        Scan_High (row\<lparr>Scan_Matches := x\<rparr>) = Scan_High row \<and>
        Scan_Crit (row\<lparr>Scan_Matches := x\<rparr>) = Scan_Crit row \<and>
        Scan_Negligible (row\<lparr>Scan_Matches := x\<rparr>) = Scan_Negligible row" for x
    by simp
  from this[of "Scan_Matches row'"] e
  show "row' = row\<lparr>Scan_Matches := Scan_Matches row'\<rparr> \<and>
   Scan_Image row' = Scan_Image row \<and> Scan_Digest row' = Scan_Digest row \<and>
   Scan_Time row' = Scan_Time row \<and> Scan_Created row' = Scan_Created row \<and>
   Scan_Low row' = Scan_Low row \<and> Scan_Med row' = Scan_Med row \<and>
   Scan_High row' = Scan_High row \<and> Scan_Crit row' = Scan_Crit row \<and>
   Scan_Negligible row' = Scan_Negligible row"
    by (intro conjI) (simp, (erule ssubst, simp)+)
qed

lemma sample_stored_row_decodes:
  "Unmarshal_ImageCveScan (col_raw_grype_json sample_stored_row) (load sample_stored_row) =
     Inr ((load sample_stored_row)\<lparr>Scan_Matches := [Some sample_query_match]\<rparr>)"
  by code_simp

lemma sample_stored_row_keys:
  "top_level_keys (col_raw_grype_json sample_stored_row) = [''matches'', ''source'', ''descriptor'']"
  by code_simp

lemma sample_keys_not_scalar:
  "\<not> scalar_field_key ''matches'' \<and> \<not> scalar_field_key ''source'' \<and>
   \<not> scalar_field_key ''descriptor''"
  by code_simp

theorem reparse_changes_only_matches_witness:
  "Unmarshal_ImageCveScan (col_raw_grype_json sample_stored_row) (load sample_stored_row) =
     Inr ((load sample_stored_row)\<lparr>Scan_Matches := [Some sample_query_match]\<rparr>) \<and>
   top_level_keys (col_raw_grype_json sample_stored_row) = [''matches'', ''source'', ''descriptor''] \<and>
   \<not> scalar_field_key ''matches'' \<and> \<not> scalar_field_key ''source'' \<and>
   \<not> scalar_field_key ''descriptor'' \<and>
   Scan_Image ((load sample_stored_row)\<lparr>Scan_Matches := [Some sample_query_match]\<rparr>) =
     Scan_Image (load sample_stored_row) \<and>
   Scan_Negligible ((load sample_stored_row)\<lparr>Scan_Matches := [Some sample_query_match]\<rparr>) =
     Scan_Negligible (load sample_stored_row)"
proof -
  have k: "\<forall>key \<in> set (top_level_keys (col_raw_grype_json sample_stored_row)). \<not> scalar_field_key key"
    using sample_keys_not_scalar by (simp add: sample_stored_row_keys)
  from reparse_changes_only_matches[THEN mp, THEN mp, OF sample_stored_row_decodes k]
  show ?thesis
    using sample_stored_row_decodes sample_stored_row_keys sample_keys_not_scalar by simp
qed

lemma reparse_overwrites_on_colliding_key:
  \<open>Unmarshal_ImageCveScan ''{"image": "other"}'' (load good_row) =
     Inr ((load good_row)\<lparr>Scan_Image := ''other''\<rparr>)\<close>
  by code_simp

end
